theory Spec2Isabelle
  imports Main
begin

section \<open>The region request sender of store/tikv (region\_request.go)\<close>

text \<open>
  \<^verbatim>\<open>RegionRequestSender\<close> sends a KV or a coprocessor request to the TiKV node that
  serves a region. It owns three collaborators: a \<^verbatim>\<open>Backoffer\<close> (with the call's
  context), a \<^verbatim>\<open>RegionCache\<close> and a transport \<^verbatim>\<open>Client\<close>. None of the three is
  defined in region\_request.go, so the embedding takes them as a record of operations
  over an arbitrary world \<open>'w\<close>; the sender's own functions are translated line by
  line and thread the world through every call, together with a log of the calls made.
\<close>

subsection \<open>Messages (kvproto: metapb, errorpb, kvrpcpb, coprocessor)\<close>

text \<open>
  Modelled from the spec: the protobuf message types are declared outside
  region\_request.go (in kvproto). Each is a record holding the fields the sender reads
  or writes, and one payload field standing for the rest of the message. A pointer field
  that may be nil is an \<open>option\<close>; the enum \<^verbatim>\<open>MessageType\<close> is its number.
\<close>

type_synonym MessageType = int

record metapb_Peer =
  peer_Id :: nat
  peer_StoreId :: nat

record metapb_Region =
  mregion_Id :: nat
  mregion_StartKey :: string
  mregion_EndKey :: string

record kvrpcpb_Context =
  ctx_RegionId :: nat
  ctx_ConfVer :: nat
  ctx_Version :: nat
  ctx_Peer :: "metapb_Peer option"

record errorpb_NotLeader =
  nl_RegionId :: nat
  nl_Leader :: "metapb_Peer option"

record errorpb_StaleEpoch =
  NewRegions :: "metapb_Region list"

record errorpb_ServerIsBusy =
  sb_Reason :: string

text \<open>
  \<^verbatim>\<open>errorpb.Error\<close> is a struct of nullable sub-messages, not a tagged union: several
  of them can be set at once, and \<^verbatim>\<open>onRegionError\<close> inspects them in a fixed order.
\<close>

record errorpb_Error =
  Message :: string
  NotLeader :: "errorpb_NotLeader option"
  StaleEpoch :: "errorpb_StaleEpoch option"
  ServerIsBusy :: "errorpb_ServerIsBusy option"

record kvrpcpb_Request =
  req_Type :: MessageType
  req_Context :: "kvrpcpb_Context option"
  req_Cmd :: string

record kvrpcpb_Response =
  resp_Type :: MessageType
  resp_RegionError :: "errorpb_Error option"
  resp_Cmd :: string

record coprocessor_Request =
  creq_Context :: "kvrpcpb_Context option"
  creq_Tp :: int
  creq_Data :: string

record coprocessor_Response =
  cresp_Data :: string
  cresp_RegionError :: "errorpb_Error option"

text \<open>The generated getters are nil-safe: on a nil message they give the zero value.\<close>

definition Peer_GetId :: "metapb_Peer option \<Rightarrow> nat" where
  "Peer_GetId p = (case p of None \<Rightarrow> 0 | Some q \<Rightarrow> peer_Id q)"

definition GetRegionError :: "kvrpcpb_Response option \<Rightarrow> errorpb_Error option" where
  "GetRegionError r = (case r of None \<Rightarrow> None | Some x \<Rightarrow> resp_RegionError x)"

definition GetType :: "kvrpcpb_Response option \<Rightarrow> MessageType" where
  "GetType r = (case r of None \<Rightarrow> 0 | Some x \<Rightarrow> resp_Type x)"

definition Cop_GetRegionError :: "coprocessor_Response option \<Rightarrow> errorpb_Error option" where
  "Cop_GetRegionError r = (case r of None \<Rightarrow> None | Some x \<Rightarrow> cresp_RegionError x)"

subsection \<open>Regions, errors and backoff classes\<close>

datatype RegionVerID = RegionVerID (ver_id: nat) (ver_confVer: nat) (ver_ver: nat)

text \<open>
  Modelled from the spec: the \<^verbatim>\<open>Region\<close> type of the region cache (region\_cache.go) is
  not part of region\_request.go. The sender only calls \<^verbatim>\<open>VerID()\<close>,
  \<^verbatim>\<open>GetAddress()\<close> and \<^verbatim>\<open>GetContext()\<close> on it: a snapshot holding the identity, the
  selected peer's network address and the routing context.
\<close>

record Region =
  region_VerID :: RegionVerID
  region_Address :: string
  region_Context :: kvrpcpb_Context

datatype backoffType = boTiKVRPC | boRegionMiss | boServerBusy

text \<open>
  Go's \<^verbatim>\<open>error\<close> values. \<open>Canceled\<close> and \<open>DeadlineExceeded\<close> are the two values of
  \<^verbatim>\<open>ctx.Err()\<close>; \<open>External\<close> is an error made by a collaborator; the \<open>Errorf\<close>
  constructors are the three messages the sender formats for the backoffer;
  \<open>errMismatch\<close> is the protocol error of a response whose type differs from the
  request's; \<open>Traced\<close> is the annotation \<^verbatim>\<open>errors.Trace\<close> adds.
\<close>

datatype error =
    Canceled
  | DeadlineExceeded
  | External string
  | Errorf_SendFail error kvrpcpb_Context
  | Errorf_NotLeader errorpb_NotLeader kvrpcpb_Context
  | Errorf_ServerBusy
  | errMismatch "kvrpcpb_Response option" kvrpcpb_Request
  | Traced error

text \<open>\<^verbatim>\<open>errors.Trace\<close> keeps nil and wraps any other error with the caller's location.\<close>

definition Trace :: "error option \<Rightarrow> error option" where
  "Trace e = (case e of None \<Rightarrow> None | Some x \<Rightarrow> Some (Traced x))"

text \<open>\<^verbatim>\<open>errors.Cause\<close>: the error under the annotations.\<close>

fun Cause :: "error \<Rightarrow> error" where
  "Cause (Traced e) = Cause e"
| "Cause e = e"

subsection \<open>The collaborators and the sender's state\<close>

text \<open>
  Modelled from the spec: the context, the region cache, the backoffer and the transport
  client are defined outside region\_request.go. These are their operations that the
  sender calls, each a function of the world. \<open>ctx_Err\<close> is \<^verbatim>\<open>ctx.Err()\<close>: it is non-nil exactly when the
  channel \<^verbatim>\<open>ctx.Done()\<close> is closed. A Go call returning \<^verbatim>\<open>(resp, err)\<close> from the
  transport is a sum: the error, or the response.
\<close>

record 'w collab =
  ctx_Err :: "'w \<Rightarrow> error option"
  GetRegionByVerID :: "RegionVerID \<Rightarrow> 'w \<Rightarrow> Region option"
  NextPeer :: "RegionVerID \<Rightarrow> 'w \<Rightarrow> 'w"
  UpdateLeader :: "RegionVerID \<Rightarrow> nat \<Rightarrow> 'w \<Rightarrow> 'w"
  DropRegion :: "RegionVerID \<Rightarrow> 'w \<Rightarrow> 'w"
  OnRegionStale :: "Region \<Rightarrow> metapb_Region list \<Rightarrow> 'w \<Rightarrow> error option \<times> 'w"
  Backoff :: "backoffType \<Rightarrow> error \<Rightarrow> 'w \<Rightarrow> error option \<times> 'w"
  client_SendKVReq ::
    "string \<Rightarrow> kvrpcpb_Request \<Rightarrow> int \<Rightarrow> 'w \<Rightarrow> (error + kvrpcpb_Response) \<times> 'w"
  client_SendCopReq ::
    "string \<Rightarrow> coprocessor_Request \<Rightarrow> int \<Rightarrow> 'w \<Rightarrow> (error + coprocessor_Response) \<times> 'w"

text \<open>The calls the sender makes, in the order it makes them.\<close>

datatype event =
    EvCtxDone
  | EvGetRegionByVerID RegionVerID
  | EvNextPeer RegionVerID
  | EvUpdateLeader RegionVerID nat
  | EvDropRegion RegionVerID
  | EvOnRegionStale Region "metapb_Region list"
  | EvBackoff backoffType error
  | EvSendKVReq string kvrpcpb_Request int
  | EvSendCopReq string coprocessor_Request int
  | EvReportRegionError errorpb_Error

record 'w state =
  world :: 'w
  calls :: "event list"

definition call_ctx_Err :: "'w collab \<Rightarrow> 'w state \<Rightarrow> error option \<times> 'w state" where
  "call_ctx_Err env s = (ctx_Err env (world s), s\<lparr>calls := calls s @ [EvCtxDone]\<rparr>)"

definition call_GetRegionByVerID ::
  "'w collab \<Rightarrow> RegionVerID \<Rightarrow> 'w state \<Rightarrow> Region option \<times> 'w state" where
  "call_GetRegionByVerID env regionID s =
     (GetRegionByVerID env regionID (world s),
      s\<lparr>calls := calls s @ [EvGetRegionByVerID regionID]\<rparr>)"

definition call_NextPeer :: "'w collab \<Rightarrow> RegionVerID \<Rightarrow> 'w state \<Rightarrow> 'w state" where
  "call_NextPeer env regionID s =
     \<lparr>world = NextPeer env regionID (world s), calls = calls s @ [EvNextPeer regionID]\<rparr>"

definition call_UpdateLeader :: "'w collab \<Rightarrow> RegionVerID \<Rightarrow> nat \<Rightarrow> 'w state \<Rightarrow> 'w state" where
  "call_UpdateLeader env regionID leaderID s =
     \<lparr>world = UpdateLeader env regionID leaderID (world s),
      calls = calls s @ [EvUpdateLeader regionID leaderID]\<rparr>"

definition call_DropRegion :: "'w collab \<Rightarrow> RegionVerID \<Rightarrow> 'w state \<Rightarrow> 'w state" where
  "call_DropRegion env regionID s =
     \<lparr>world = DropRegion env regionID (world s), calls = calls s @ [EvDropRegion regionID]\<rparr>"

definition call_OnRegionStale ::
  "'w collab \<Rightarrow> Region \<Rightarrow> metapb_Region list \<Rightarrow> 'w state \<Rightarrow> error option \<times> 'w state" where
  "call_OnRegionStale env region newRegions s =
     (case OnRegionStale env region newRegions (world s) of
        (err, w) \<Rightarrow> (err, \<lparr>world = w, calls = calls s @ [EvOnRegionStale region newRegions]\<rparr>))"

definition call_Backoff ::
  "'w collab \<Rightarrow> backoffType \<Rightarrow> error \<Rightarrow> 'w state \<Rightarrow> error option \<times> 'w state" where
  "call_Backoff env typ detail s =
     (case Backoff env typ detail (world s) of
        (err, w) \<Rightarrow> (err, \<lparr>world = w, calls = calls s @ [EvBackoff typ detail]\<rparr>))"

definition call_client_SendKVReq ::
  "'w collab \<Rightarrow> string \<Rightarrow> kvrpcpb_Request \<Rightarrow> int \<Rightarrow> 'w state
     \<Rightarrow> (error + kvrpcpb_Response) \<times> 'w state" where
  "call_client_SendKVReq env addr req timeout s =
     (case client_SendKVReq env addr req timeout (world s) of
        (r, w) \<Rightarrow> (r, \<lparr>world = w, calls = calls s @ [EvSendKVReq addr req timeout]\<rparr>))"

definition call_client_SendCopReq ::
  "'w collab \<Rightarrow> string \<Rightarrow> coprocessor_Request \<Rightarrow> int \<Rightarrow> 'w state
     \<Rightarrow> (error + coprocessor_Response) \<times> 'w state" where
  "call_client_SendCopReq env addr req timeout s =
     (case client_SendCopReq env addr req timeout (world s) of
        (r, w) \<Rightarrow> (r, \<lparr>world = w, calls = calls s @ [EvSendCopReq addr req timeout]\<rparr>))"

definition call_reportRegionError :: "errorpb_Error \<Rightarrow> 'w state \<Rightarrow> 'w state" where
  "call_reportRegionError regionErr s = s\<lparr>calls := calls s @ [EvReportRegionError regionErr]\<rparr>"

subsection \<open>The sender\<close>

text \<open>
  \<^verbatim>\<open>onSendFail\<close>: advance the peer, then back off on the RPC-error class; the result of
  the backoff, traced, is the result.
\<close>

definition onSendFail ::
  "'w collab \<Rightarrow> RegionVerID \<Rightarrow> kvrpcpb_Context \<Rightarrow> error \<Rightarrow> 'w state \<Rightarrow> error option \<times> 'w state" where
  "onSendFail env regionID ctx err s =
     (case call_Backoff env boTiKVRPC (Errorf_SendFail err ctx) (call_NextPeer env regionID s) of
        (err', s') \<Rightarrow> (Trace err', s'))"

text \<open>
  \<^verbatim>\<open>sendKVReqToRegion\<close> returns \<^verbatim>\<open>(resp, retry, err)\<close>. It writes the region's context
  into the caller's request (a pointer), so the request is returned too.
\<close>

definition sendKVReqToRegion ::
  "'w collab \<Rightarrow> Region \<Rightarrow> kvrpcpb_Request \<Rightarrow> int \<Rightarrow> 'w state
     \<Rightarrow> (kvrpcpb_Response option \<times> bool \<times> error option) \<times> kvrpcpb_Request \<times> 'w state" where
  "sendKVReqToRegion env region req timeout s =
     (let req1 = req\<lparr>req_Context := Some (region_Context region)\<rparr> in
      case call_client_SendKVReq env (region_Address region) req1 timeout s of
        (Inl err, s1) \<Rightarrow>
          (case onSendFail env (region_VerID region) (region_Context region) err s1 of
             (Some e, s2) \<Rightarrow> ((None, False, Trace (Some e)), req1, s2)
           | (None, s2) \<Rightarrow> ((None, True, None), req1, s2))
      | (Inr resp, s1) \<Rightarrow> ((Some resp, False, None), req1, s1))"

text \<open>
  \<^verbatim>\<open>sendCopReqToRegion\<close> is the same for a coprocessor request, but when \<^verbatim>\<open>onSendFail\<close>
  fails with \<^verbatim>\<open>e\<close> it returns \<^verbatim>\<open>errors.Trace(err)\<close>, the transport's error.
\<close>

definition sendCopReqToRegion ::
  "'w collab \<Rightarrow> Region \<Rightarrow> coprocessor_Request \<Rightarrow> int \<Rightarrow> 'w state
     \<Rightarrow> (coprocessor_Response option \<times> bool \<times> error option) \<times> coprocessor_Request \<times> 'w state" where
  "sendCopReqToRegion env region req timeout s =
     (let req1 = req\<lparr>creq_Context := Some (region_Context region)\<rparr> in
      case call_client_SendCopReq env (region_Address region) req1 timeout s of
        (Inl err, s1) \<Rightarrow>
          (case onSendFail env (region_VerID region) (region_Context region) err s1 of
             (Some e, s2) \<Rightarrow> ((None, False, Trace (Some err)), req1, s2)
           | (None, s2) \<Rightarrow> ((None, True, None), req1, s2))
      | (Inr resp, s1) \<Rightarrow> ((Some resp, False, None), req1, s1))"

text \<open>
  \<^verbatim>\<open>onRegionError\<close> returns \<^verbatim>\<open>(retry, err)\<close>. The branches are tried in the source's
  order: NotLeader, StaleEpoch, ServerIsBusy, anything else. Only the StaleEpoch branch
  and the two failed backoffs return inside the chain; every other path reaches the
  final \<^verbatim>\<open>return true, nil\<close>. The log lines have no effect and are left out.
\<close>

definition onRegionError ::
  "'w collab \<Rightarrow> Region \<Rightarrow> errorpb_Error \<Rightarrow> 'w state \<Rightarrow> (bool \<times> error option) \<times> 'w state" where
  "onRegionError env region regionErr s0 =
     (let s = call_reportRegionError regionErr s0 in
      case NotLeader regionErr of
        Some notLeader \<Rightarrow>
          (let s1 = call_UpdateLeader env (region_VerID region)
                      (Peer_GetId (nl_Leader notLeader)) s in
           if nl_Leader notLeader = None then
             (case call_Backoff env boRegionMiss
                     (Errorf_NotLeader notLeader (region_Context region)) s1 of
                (Some err, s2) \<Rightarrow> ((False, Trace (Some err)), s2)
              | (None, s2) \<Rightarrow> ((True, None), s2))
           else ((True, None), s1))
      | None \<Rightarrow>
          (case StaleEpoch regionErr of
             Some staleEpoch \<Rightarrow>
               (case call_OnRegionStale env region (NewRegions staleEpoch) s of
                  (err, s1) \<Rightarrow> ((False, Trace err), s1))
           | None \<Rightarrow>
               (if ServerIsBusy regionErr \<noteq> None then
                  (case call_Backoff env boServerBusy Errorf_ServerBusy s of
                     (Some err, s1) \<Rightarrow> ((False, Trace (Some err)), s1)
                   | (None, s1) \<Rightarrow> ((True, None), s1))
                else ((True, None), call_DropRegion env (region_VerID region) s))))"

text \<open>
  One pass through the body of a \<^verbatim>\<open>for { ... }\<close> loop either returns the function's
  two results \<^verbatim>\<open>(resp, err)\<close> or reaches \<^verbatim>\<open>continue\<close>.
\<close>

datatype 'a step = Return 'a | Continue

text \<open>The region error the sender puts in the response it makes up for an unknown region.\<close>

definition staleEpochError :: errorpb_Error where
  "staleEpochError =
     \<lparr>Message = [], NotLeader = None, StaleEpoch = Some \<lparr>NewRegions = []\<rparr>,
      ServerIsBusy = None\<rparr>"

text \<open>The body of the loop of \<^verbatim>\<open>SendKVReq\<close>.\<close>

definition SendKVReq_body ::
  "'w collab \<Rightarrow> kvrpcpb_Request \<Rightarrow> RegionVerID \<Rightarrow> int \<Rightarrow> 'w state
     \<Rightarrow> (kvrpcpb_Response option \<times> error option) step \<times> kvrpcpb_Request \<times> 'w state" where
  "SendKVReq_body env req regionID timeout s =
     (case call_ctx_Err env s of
        (Some cerr, s1) \<Rightarrow> (Return (None, Trace (Some cerr)), req, s1)
      | (None, s1) \<Rightarrow>
     (case call_GetRegionByVerID env regionID s1 of
        (None, s2) \<Rightarrow>
          (Return (Some \<lparr>resp_Type = req_Type req, resp_RegionError = Some staleEpochError,
                         resp_Cmd = []\<rparr>, None), req, s2)
      | (Some region, s2) \<Rightarrow>
     (case sendKVReqToRegion env region req timeout s2 of
        ((resp, retry, Some err), req1, s3) \<Rightarrow> (Return (None, Trace (Some err)), req1, s3)
      | ((resp, True, None), req1, s3) \<Rightarrow> (Continue, req1, s3)
      | ((resp, False, None), req1, s3) \<Rightarrow>
     (let check = (\<lambda>s5. if GetType resp \<noteq> req_Type req1
                         then (Return (None, Trace (Some (errMismatch resp req1))), req1, s5)
                         else (Return (resp, None), req1, s5)) in
      case GetRegionError resp of
        Some regionErr \<Rightarrow>
          (case onRegionError env region regionErr s3 of
             ((retry', Some err), s4) \<Rightarrow> (Return (None, Trace (Some err)), req1, s4)
           | ((True, None), s4) \<Rightarrow> (Continue, req1, s4)
           | ((False, None), s4) \<Rightarrow> check s4)
      | None \<Rightarrow> check s3))))"

text \<open>The body of the loop of \<^verbatim>\<open>SendCopReq\<close>: no context check and no type check.\<close>

definition SendCopReq_body ::
  "'w collab \<Rightarrow> coprocessor_Request \<Rightarrow> RegionVerID \<Rightarrow> int \<Rightarrow> 'w state
     \<Rightarrow> (coprocessor_Response option \<times> error option) step \<times> coprocessor_Request \<times> 'w state" where
  "SendCopReq_body env req regionID timeout s =
     (case call_GetRegionByVerID env regionID s of
        (None, s2) \<Rightarrow>
          (Return (Some \<lparr>cresp_Data = [], cresp_RegionError = Some staleEpochError\<rparr>, None),
           req, s2)
      | (Some region, s2) \<Rightarrow>
     (case sendCopReqToRegion env region req timeout s2 of
        ((resp, retry, Some err), req1, s3) \<Rightarrow> (Return (None, Trace (Some err)), req1, s3)
      | ((resp, True, None), req1, s3) \<Rightarrow> (Continue, req1, s3)
      | ((resp, False, None), req1, s3) \<Rightarrow>
     (case Cop_GetRegionError resp of
        Some regionErr \<Rightarrow>
          (case onRegionError env region regionErr s3 of
             ((retry', Some err), s4) \<Rightarrow> (Return (None, Trace (Some err)), req1, s4)
           | ((True, None), s4) \<Rightarrow> (Continue, req1, s4)
           | ((False, None), s4) \<Rightarrow> (Return (resp, None), req1, s4))
      | None \<Rightarrow> (Return (resp, None), req1, s3))))"

text \<open>
  The loops have no bound: a call that retries forever has no result (\<open>None\<close>); a call
  that returns gives the two results, the request as the sender left it, and the state.
\<close>

partial_function (option) SendKVReq ::
  "'w collab \<Rightarrow> kvrpcpb_Request \<Rightarrow> RegionVerID \<Rightarrow> int \<Rightarrow> 'w state
     \<Rightarrow> ((kvrpcpb_Response option \<times> error option) \<times> kvrpcpb_Request \<times> 'w state) option" where
  "SendKVReq env req regionID timeout s =
     (case SendKVReq_body env req regionID timeout s of
        (Return r, req', s') \<Rightarrow> Some (r, req', s')
      | (Continue, req', s') \<Rightarrow> SendKVReq env req' regionID timeout s')"

partial_function (option) SendCopReq ::
  "'w collab \<Rightarrow> coprocessor_Request \<Rightarrow> RegionVerID \<Rightarrow> int \<Rightarrow> 'w state
     \<Rightarrow> ((coprocessor_Response option \<times> error option) \<times> coprocessor_Request \<times> 'w state) option" where
  "SendCopReq env req regionID timeout s =
     (case SendCopReq_body env req regionID timeout s of
        (Return r, req', s') \<Rightarrow> Some (r, req', s')
      | (Continue, req', s') \<Rightarrow> SendCopReq env req' regionID timeout s')"


subsection \<open>A scripted stand-in for the collaborators\<close>

text \<open>
  To run the sender on concrete inputs the three collaborators are replaced by a small
  simulation: the context's error, the cache as a list of entries, the answers the
  transport will give (in order), the retries the backoffer still allows, and the result
  of \<^verbatim>\<open>OnRegionStale\<close>. \<open>DropRegion\<close> and \<open>OnRegionStale\<close> remove the entry;
  \<open>NextPeer\<close> and \<open>UpdateLeader\<close> keep the snapshot as it is.
\<close>

record sim =
  sim_ctx :: "error option"
  sim_cache :: "(RegionVerID \<times> Region) list"
  sim_kv :: "(error + kvrpcpb_Response) list"
  sim_cop :: "(error + coprocessor_Response) list"
  sim_budget :: nat
  sim_stale :: "error option"

definition sim_env :: "sim collab" where
  "sim_env =
     \<lparr>ctx_Err = sim_ctx,
      GetRegionByVerID = (\<lambda>regionID w. map_of (sim_cache w) regionID),
      NextPeer = (\<lambda>regionID w. w),
      UpdateLeader = (\<lambda>regionID leaderID w. w),
      DropRegion = (\<lambda>regionID w. w\<lparr>sim_cache := filter (\<lambda>e. fst e \<noteq> regionID) (sim_cache w)\<rparr>),
      OnRegionStale = (\<lambda>region newRegions w.
        (sim_stale w, w\<lparr>sim_cache := filter (\<lambda>e. fst e \<noteq> region_VerID region) (sim_cache w)\<rparr>)),
      Backoff = (\<lambda>typ detail w.
        if sim_budget w = 0 then (Some (External ''backoffer.maxSleep is exceeded''), w)
        else (None, w\<lparr>sim_budget := sim_budget w - 1\<rparr>)),
      client_SendKVReq = (\<lambda>addr req timeout w.
        case sim_kv w of
          [] \<Rightarrow> (Inl (External ''connection refused''), w)
        | r # rs \<Rightarrow> (r, w\<lparr>sim_kv := rs\<rparr>)),
      client_SendCopReq = (\<lambda>addr req timeout w.
        case sim_cop w of
          [] \<Rightarrow> (Inl (External ''connection refused''), w)
        | r # rs \<Rightarrow> (r, w\<lparr>sim_cop := rs\<rparr>))\<rparr>"

text \<open>One region, served at one address, and a request of each kind.\<close>

definition id1 :: RegionVerID where
  "id1 = RegionVerID 1 1 3"

definition ctx1 :: kvrpcpb_Context where
  "ctx1 = \<lparr>ctx_RegionId = 1, ctx_ConfVer = 1, ctx_Version = 3,
           ctx_Peer = Some \<lparr>peer_Id = 11, peer_StoreId = 1\<rparr>\<rparr>"

definition region1 :: Region where
  "region1 = \<lparr>region_VerID = id1, region_Address = ''store1:20160'', region_Context = ctx1\<rparr>"

definition kvreq :: kvrpcpb_Request where
  "kvreq = \<lparr>req_Type = 1, req_Context = None, req_Cmd = ''get k''\<rparr>"

definition copreq :: coprocessor_Request where
  "copreq = \<lparr>creq_Context = None, creq_Tp = 101, creq_Data = ''select''\<rparr>"

definition sim0 :: sim where
  "sim0 = \<lparr>sim_ctx = None, sim_cache = [(id1, region1)], sim_kv = [], sim_cop = [],
           sim_budget = 2, sim_stale = None\<rparr>"

definition start :: "'w \<Rightarrow> 'w state" where
  "start w = \<lparr>world = w, calls = []\<rparr>"


definition kvreq_sent :: kvrpcpb_Request where
  "kvreq_sent = kvreq\<lparr>req_Context := Some ctx1\<rparr>"

definition copreq_sent :: coprocessor_Request where
  "copreq_sent = copreq\<lparr>creq_Context := Some ctx1\<rparr>"

text \<open>Region errors of the four kinds, and responses carrying them.\<close>

definition otherError :: errorpb_Error where
  "otherError =
     \<lparr>Message = ''key not in region'', NotLeader = None, StaleEpoch = None,
      ServerIsBusy = None\<rparr>"

definition notLeaderError :: "metapb_Peer option \<Rightarrow> errorpb_Error" where
  "notLeaderError leader =
     \<lparr>Message = ''not leader'', NotLeader = Some \<lparr>nl_RegionId = 1, nl_Leader = leader\<rparr>,
      StaleEpoch = None, ServerIsBusy = None\<rparr>"

definition peer2 :: metapb_Peer where
  "peer2 = \<lparr>peer_Id = 12, peer_StoreId = 2\<rparr>"

definition staleError :: errorpb_Error where
  "staleError =
     \<lparr>Message = ''stale epoch'', NotLeader = None,
      StaleEpoch = Some \<lparr>NewRegions =
        [\<lparr>mregion_Id = 1, mregion_StartKey = ''a'', mregion_EndKey = ''m''\<rparr>,
         \<lparr>mregion_Id = 2, mregion_StartKey = ''m'', mregion_EndKey = ''z''\<rparr>]\<rparr>,
      ServerIsBusy = None\<rparr>"

definition busyError :: errorpb_Error where
  "busyError =
     \<lparr>Message = ''server is busy'', NotLeader = None, StaleEpoch = None,
      ServerIsBusy = Some \<lparr>sb_Reason = ''scheduler is busy''\<rparr>\<rparr>"

definition kvresp :: "MessageType \<Rightarrow> errorpb_Error option \<Rightarrow> kvrpcpb_Response" where
  "kvresp typ regionErr = \<lparr>resp_Type = typ, resp_RegionError = regionErr, resp_Cmd = ''value''\<rparr>"

definition copresp :: "errorpb_Error option \<Rightarrow> coprocessor_Response" where
  "copresp regionErr = \<lparr>cresp_Data = ''rows'', cresp_RegionError = regionErr\<rparr>"

text \<open>The response the sender makes up when the cache does not know the region.\<close>

definition kv_notFound :: "kvrpcpb_Request \<Rightarrow> kvrpcpb_Response" where
  "kv_notFound req =
     \<lparr>resp_Type = req_Type req, resp_RegionError = Some staleEpochError, resp_Cmd = []\<rparr>"

definition cop_notFound :: coprocessor_Response where
  "cop_notFound = \<lparr>cresp_Data = [], cresp_RegionError = Some staleEpochError\<rparr>"

text \<open>
  A second stand-in, with nothing to remember: the context is never done, the cache
  always resolves to region 1, and the node always answers NotLeader, naming peer 2.
\<close>

definition redirecting_env :: "unit collab" where
  "redirecting_env =
     \<lparr>ctx_Err = (\<lambda>w. None),
      GetRegionByVerID = (\<lambda>regionID w. Some region1),
      NextPeer = (\<lambda>regionID w. w),
      UpdateLeader = (\<lambda>regionID leaderID w. w),
      DropRegion = (\<lambda>regionID w. w),
      OnRegionStale = (\<lambda>region newRegions w. (None, w)),
      Backoff = (\<lambda>typ detail w. (None, w)),
      client_SendKVReq = (\<lambda>addr req timeout w.
        (Inr (kvresp (req_Type req) (Some (notLeaderError (Some peer2)))), w)),
      client_SendCopReq = (\<lambda>addr req timeout w.
        (Inr (copresp (Some (notLeaderError (Some peer2)))), w))\<rparr>"

subsection \<open>Vocabulary of the properties\<close>

text \<open>The request as sent: its routing context is the region's.\<close>

definition kv_stamp :: "kvrpcpb_Request \<Rightarrow> Region \<Rightarrow> kvrpcpb_Request" where
  "kv_stamp req region = req\<lparr>req_Context := Some (region_Context region)\<rparr>"

definition cop_stamp :: "coprocessor_Request \<Rightarrow> Region \<Rightarrow> coprocessor_Request" where
  "cop_stamp req region = req\<lparr>creq_Context := Some (region_Context region)\<rparr>"

text \<open>
  A pass of \<^verbatim>\<open>SendKVReq\<close> that starts in world \<open>w\<close> reaches the transport: the context
  is not done, the cache resolves the identity to \<open>region\<close>, and the transport, given
  the stamped request, gives \<open>r\<close> and leaves the world \<open>w'\<close>. For \<^verbatim>\<open>SendCopReq\<close>
  the context plays no part.
\<close>

definition kv_dispatch ::
  "'w collab \<Rightarrow> kvrpcpb_Request \<Rightarrow> RegionVerID \<Rightarrow> int \<Rightarrow> 'w \<Rightarrow> Region
     \<Rightarrow> (error + kvrpcpb_Response) \<Rightarrow> 'w \<Rightarrow> bool" where
  "kv_dispatch env req regionID timeout w region r w' \<longleftrightarrow>
     ctx_Err env w = None \<and> GetRegionByVerID env regionID w = Some region \<and>
     client_SendKVReq env (region_Address region) (kv_stamp req region) timeout w = (r, w')"

definition cop_dispatch ::
  "'w collab \<Rightarrow> coprocessor_Request \<Rightarrow> RegionVerID \<Rightarrow> int \<Rightarrow> 'w \<Rightarrow> Region
     \<Rightarrow> (error + coprocessor_Response) \<Rightarrow> 'w \<Rightarrow> bool" where
  "cop_dispatch env req regionID timeout w region r w' \<longleftrightarrow>
     GetRegionByVerID env regionID w = Some region \<and>
     client_SendCopReq env (region_Address region) (cop_stamp req region) timeout w = (r, w')"

text \<open>The calls of such a pass up to and including the transport call.\<close>

definition kv_sent_calls :: "kvrpcpb_Request \<Rightarrow> RegionVerID \<Rightarrow> int \<Rightarrow> Region \<Rightarrow> event list" where
  "kv_sent_calls req regionID timeout region =
     [EvCtxDone, EvGetRegionByVerID regionID,
      EvSendKVReq (region_Address region) (kv_stamp req region) timeout]"

definition cop_sent_calls ::
  "coprocessor_Request \<Rightarrow> RegionVerID \<Rightarrow> int \<Rightarrow> Region \<Rightarrow> event list" where
  "cop_sent_calls req regionID timeout region =
     [EvGetRegionByVerID regionID,
      EvSendCopReq (region_Address region) (cop_stamp req region) timeout]"

text \<open>The state once the calls \<open>evs\<close> have been made after \<open>s\<close>, leaving the world \<open>w\<close>.\<close>

definition after :: "'w state \<Rightarrow> event list \<Rightarrow> 'w \<Rightarrow> 'w state" where
  "after s evs w = \<lparr>world = w, calls = calls s @ evs\<rparr>"

text \<open>
  The branch of \<^verbatim>\<open>onRegionError\<close> a region error takes: the sub-messages are tested in
  this order, and the first one set decides.
\<close>

datatype variant = NotLeaderV | StaleEpochV | ServerIsBusyV | OtherV

definition variant_of :: "errorpb_Error \<Rightarrow> variant" where
  "variant_of regionErr =
     (if NotLeader regionErr \<noteq> None then NotLeaderV
      else if StaleEpoch regionErr \<noteq> None then StaleEpochV
      else if ServerIsBusy regionErr \<noteq> None then ServerIsBusyV
      else OtherV)"

text \<open>Which calls change the cache, and which charge a backoff budget.\<close>

fun is_cache_mutation :: "event \<Rightarrow> bool" where
  "is_cache_mutation (EvNextPeer regionID) = True"
| "is_cache_mutation (EvUpdateLeader regionID leaderID) = True"
| "is_cache_mutation (EvDropRegion regionID) = True"
| "is_cache_mutation (EvOnRegionStale region newRegions) = True"
| "is_cache_mutation ev = False"

fun is_backoff :: "event \<Rightarrow> bool" where
  "is_backoff (EvBackoff typ detail) = True"
| "is_backoff ev = False"

section \<open>Properties\<close>

lemmas call_defs =
  call_ctx_Err_def call_GetRegionByVerID_def call_NextPeer_def call_UpdateLeader_def
  call_DropRegion_def call_OnRegionStale_def call_Backoff_def call_client_SendKVReq_def
  call_client_SendCopReq_def call_reportRegionError_def

lemmas sender_defs =
  SendKVReq_body_def SendCopReq_body_def sendKVReqToRegion_def sendCopReqToRegion_def
  onSendFail_def onRegionError_def Trace_def GetRegionError_def GetType_def
  Cop_GetRegionError_def Peer_GetId_def Let_def

lemmas sim_defs =
  sim_env_def sim0_def start_def id1_def region1_def ctx1_def kvreq_def copreq_def
  kvreq_sent_def copreq_sent_def otherError_def notLeaderError_def peer2_def staleError_def
  busyError_def kvresp_def copresp_def kv_notFound_def cop_notFound_def staleEpochError_def

lemmas vocab_defs =
  kv_stamp_def cop_stamp_def kv_dispatch_def cop_dispatch_def kv_sent_calls_def
  cop_sent_calls_def after_def

subsection \<open>Unfolding the loops\<close>

lemma SendKVReq_Return:
  "SendKVReq_body env req regionID timeout s = (Return r, req', s')
   \<Longrightarrow> SendKVReq env req regionID timeout s = Some (r, req', s')"
  by (subst SendKVReq.simps) simp

lemma SendKVReq_Continue:
  "SendKVReq_body env req regionID timeout s = (Continue, req', s')
   \<Longrightarrow> SendKVReq env req regionID timeout s = SendKVReq env req' regionID timeout s'"
  by (subst SendKVReq.simps) simp

lemma SendCopReq_Return:
  "SendCopReq_body env req regionID timeout s = (Return r, req', s')
   \<Longrightarrow> SendCopReq env req regionID timeout s = Some (r, req', s')"
  by (subst SendCopReq.simps) simp

lemma SendCopReq_Continue:
  "SendCopReq_body env req regionID timeout s = (Continue, req', s')
   \<Longrightarrow> SendCopReq env req regionID timeout s = SendCopReq env req' regionID timeout s'"
  by (subst SendCopReq.simps) simp

subsection \<open>One pass through the loop, case by case\<close>

lemma SendKVReq_body_answered:
  assumes "kv_dispatch env req regionID timeout (world s) region (Inr resp) w1"
  shows "SendKVReq_body env req regionID timeout s =
    (let req1 = kv_stamp req region;
         s3 = after s (kv_sent_calls req regionID timeout region) w1;
         check = (\<lambda>s5. (Return (if resp_Type resp \<noteq> req_Type req
                                 then (None, Some (Traced (errMismatch (Some resp) req1)))
                                 else (Some resp, None)), req1, s5))
     in case resp_RegionError resp of
          None \<Rightarrow> check s3
        | Some regionErr \<Rightarrow>
            (case onRegionError env region regionErr s3 of
               ((retry, Some err), s4) \<Rightarrow> (Return (None, Some (Traced err)), req1, s4)
             | ((True, None), s4) \<Rightarrow> (Continue, req1, s4)
             | ((False, None), s4) \<Rightarrow> check s4))"
  using assms
  by (simp add: SendKVReq_body_def sendKVReqToRegion_def call_ctx_Err_def call_GetRegionByVerID_def
      call_client_SendKVReq_def vocab_defs Let_def GetType_def GetRegionError_def Trace_def
      split: option.splits prod.splits bool.splits)

lemma SendCopReq_body_answered:
  assumes "cop_dispatch env req regionID timeout (world s) region (Inr resp) w1"
  shows "SendCopReq_body env req regionID timeout s =
    (let req1 = cop_stamp req region;
         s3 = after s (cop_sent_calls req regionID timeout region) w1
     in case cresp_RegionError resp of
          None \<Rightarrow> (Return (Some resp, None), req1, s3)
        | Some regionErr \<Rightarrow>
            (case onRegionError env region regionErr s3 of
               ((retry, Some err), s4) \<Rightarrow> (Return (None, Some (Traced err)), req1, s4)
             | ((True, None), s4) \<Rightarrow> (Continue, req1, s4)
             | ((False, None), s4) \<Rightarrow> (Return (Some resp, None), req1, s4)))"
  using assms
  by (simp add: SendCopReq_body_def sendCopReqToRegion_def call_GetRegionByVerID_def
      call_client_SendCopReq_def vocab_defs Let_def Cop_GetRegionError_def Trace_def
      split: option.splits prod.splits bool.splits)

lemma SendKVReq_body_failed:
  assumes "kv_dispatch env req regionID timeout (world s) region (Inl err) w1"
    and "Backoff env boTiKVRPC (Errorf_SendFail err (region_Context region))
           (NextPeer env (region_VerID region) w1) = (berr, w2)"
  shows "SendKVReq_body env req regionID timeout s =
    ((case berr of None \<Rightarrow> Continue
      | Some b \<Rightarrow> Return (None, Some (Traced (Traced (Traced b))))),
     kv_stamp req region,
     after s (kv_sent_calls req regionID timeout region @
        [EvNextPeer (region_VerID region),
         EvBackoff boTiKVRPC (Errorf_SendFail err (region_Context region))]) w2)"
  using assms
  by (simp add: SendKVReq_body_def sendKVReqToRegion_def onSendFail_def call_defs vocab_defs
      Let_def Trace_def split: option.splits)

lemma SendCopReq_body_failed:
  assumes "cop_dispatch env req regionID timeout (world s) region (Inl err) w1"
    and "Backoff env boTiKVRPC (Errorf_SendFail err (region_Context region))
           (NextPeer env (region_VerID region) w1) = (berr, w2)"
  shows "SendCopReq_body env req regionID timeout s =
    ((case berr of None \<Rightarrow> Continue
      | Some b \<Rightarrow> Return (None, Some (Traced (Traced err)))),
     cop_stamp req region,
     after s (cop_sent_calls req regionID timeout region @
        [EvNextPeer (region_VerID region),
         EvBackoff boTiKVRPC (Errorf_SendFail err (region_Context region))]) w2)"
  using assms
  by (simp add: SendCopReq_body_def sendCopReqToRegion_def onSendFail_def call_defs vocab_defs
      Let_def Trace_def split: option.splits)

subsection \<open>Region-error recovery, branch by branch\<close>

lemma onRegionError_notLeader:
  assumes "NotLeader regionErr = Some nl"
  shows "onRegionError env region regionErr s =
    (case nl_Leader nl of
       Some p \<Rightarrow>
         ((True, None),
          after s [EvReportRegionError regionErr,
                   EvUpdateLeader (region_VerID region) (peer_Id p)]
            (UpdateLeader env (region_VerID region) (peer_Id p) (world s)))
     | None \<Rightarrow>
         (case Backoff env boRegionMiss (Errorf_NotLeader nl (region_Context region))
                 (UpdateLeader env (region_VerID region) 0 (world s)) of
            (berr, w2) \<Rightarrow>
              ((berr = None, Trace berr),
               after s [EvReportRegionError regionErr, EvUpdateLeader (region_VerID region) 0,
                        EvBackoff boRegionMiss (Errorf_NotLeader nl (region_Context region))]
                 w2)))"
  using assms
  by (simp add: onRegionError_def call_defs Peer_GetId_def Let_def Trace_def after_def
      split: option.splits prod.splits)

lemma onRegionError_staleEpoch:
  assumes "NotLeader regionErr = None" "StaleEpoch regionErr = Some se"
  shows "onRegionError env region regionErr s =
    (case OnRegionStale env region (NewRegions se) (world s) of
       (err, w1) \<Rightarrow>
         ((False, Trace err),
          after s [EvReportRegionError regionErr, EvOnRegionStale region (NewRegions se)] w1))"
  using assms by (simp add: onRegionError_def call_defs Let_def after_def split: prod.splits)

lemma onRegionError_busy:
  assumes "NotLeader regionErr = None" "StaleEpoch regionErr = None"
    "ServerIsBusy regionErr = Some b"
  shows "onRegionError env region regionErr s =
    (case Backoff env boServerBusy Errorf_ServerBusy (world s) of
       (berr, w1) \<Rightarrow>
         ((berr = None, Trace berr),
          after s [EvReportRegionError regionErr, EvBackoff boServerBusy Errorf_ServerBusy]
            w1))"
  using assms
  by (simp add: onRegionError_def call_defs Let_def Trace_def after_def
      split: option.splits prod.splits)

lemma after_after [simp]: "after (after s evs w) evs' w' = after s (evs @ evs') w'"
  by (simp add: after_def)

lemma world_after [simp]: "world (after s evs w) = w"
  by (simp add: after_def)

lemma calls_after [simp]: "calls (after s evs w) = calls s @ evs"
  by (simp add: after_def)

subsection \<open>Region errors of no known kind\<close>

text \<open>
  For a region error that is neither NotLeader nor StaleEpoch nor ServerIsBusy,
  \<^verbatim>\<open>onRegionError\<close> reports it, drops the region from the cache and calls nothing
  else; control then reaches the final \<^verbatim>\<open>return true, nil\<close>, so the result asks for
  a retry.
\<close>

lemma onRegionError_other:
  assumes "NotLeader regionErr = None" "StaleEpoch regionErr = None"
    "ServerIsBusy regionErr = None"
  shows "onRegionError env region regionErr s =
    ((True, None),
     \<lparr>world = DropRegion env (region_VerID region) (world s),
      calls = calls s @ [EvReportRegionError regionErr, EvDropRegion (region_VerID region)]\<rparr>)"
  using assms by (simp add: onRegionError_def call_defs)

text \<open>
  C1. The claim: a response with a region error of the Other kind makes the sender drop
  the cache entry, charge no backoff, not retry, and return that response. On the code:
  region 1 is cached, the transport answers the KV request with a response whose region
  error is ``key not in region''. The pass through the loop ends in \<^verbatim>\<open>continue\<close>
  after the drop. The second pass finds the region gone and returns the made-up
  StaleEpoch response; the server's response is never returned.
\<close>

theorem C1_other_region_error_is_retried:
  "SendKVReq_body sim_env kvreq id1 5
       (start (sim0\<lparr>sim_kv := [Inr (kvresp 1 (Some otherError))]\<rparr>)) =
     (Continue, kvreq_sent,
      \<lparr>world = sim0\<lparr>sim_cache := []\<rparr>,
       calls = [EvCtxDone, EvGetRegionByVerID id1, EvSendKVReq ''store1:20160'' kvreq_sent 5,
                EvReportRegionError otherError, EvDropRegion id1]\<rparr>)
   \<and> SendKVReq sim_env kvreq id1 5
       (start (sim0\<lparr>sim_kv := [Inr (kvresp 1 (Some otherError))]\<rparr>)) =
     Some ((Some (kv_notFound kvreq), None), kvreq_sent,
      \<lparr>world = sim0\<lparr>sim_cache := []\<rparr>,
       calls = [EvCtxDone, EvGetRegionByVerID id1, EvSendKVReq ''store1:20160'' kvreq_sent 5,
                EvReportRegionError otherError, EvDropRegion id1,
                EvCtxDone, EvGetRegionByVerID id1]\<rparr>)
   \<and> kv_notFound kvreq \<noteq> kvresp 1 (Some otherError)"
proof -
  let ?s = "start (sim0\<lparr>sim_kv := [Inr (kvresp 1 (Some otherError))]\<rparr>)"
  let ?s' = "\<lparr>world = sim0\<lparr>sim_cache := []\<rparr>,
       calls = [EvCtxDone, EvGetRegionByVerID id1, EvSendKVReq ''store1:20160'' kvreq_sent 5,
                EvReportRegionError otherError, EvDropRegion id1]\<rparr>"
  have first: "SendKVReq_body sim_env kvreq id1 5 ?s = (Continue, kvreq_sent, ?s')"
    by (simp add: sender_defs call_defs sim_defs)
  have second: "SendKVReq_body sim_env kvreq_sent id1 5 ?s' =
      (Return (Some (kv_notFound kvreq), None), kvreq_sent,
       ?s'\<lparr>calls := calls ?s' @ [EvCtxDone, EvGetRegionByVerID id1]\<rparr>)"
    by (simp add: sender_defs call_defs sim_defs)
  have "SendKVReq sim_env kvreq id1 5 ?s = SendKVReq sim_env kvreq_sent id1 5 ?s'"
    using first by (rule SendKVReq_Continue)
  also have "\<dots> = Some ((Some (kv_notFound kvreq), None), kvreq_sent,
       ?s'\<lparr>calls := calls ?s' @ [EvCtxDone, EvGetRegionByVerID id1]\<rparr>)"
    using second by (rule SendKVReq_Return)
  finally have loop: "SendKVReq sim_env kvreq id1 5 ?s =
      Some ((Some (kv_notFound kvreq), None), kvreq_sent,
       ?s'\<lparr>calls := calls ?s' @ [EvCtxDone, EvGetRegionByVerID id1]\<rparr>)" .
  have differ: "kv_notFound kvreq \<noteq> kvresp 1 (Some otherError)"
    by (simp add: sim_defs)
  from first loop differ show ?thesis by simp
qed

subsection \<open>Cancellation\<close>

text \<open>
  \<^verbatim>\<open>SendKVReq\<close> polls the context first in every pass: with the context done, the pass
  returns the traced context error, whatever the cache and the transport would do.
\<close>

lemma SendKVReq_cancelled:
  assumes "ctx_Err env (world s) = Some e"
  shows "SendKVReq env req regionID timeout s =
    Some ((None, Some (Traced e)), req, s\<lparr>calls := calls s @ [EvCtxDone]\<rparr>)"
proof -
  have "SendKVReq_body env req regionID timeout s =
      (Return (None, Some (Traced e)), req, s\<lparr>calls := calls s @ [EvCtxDone]\<rparr>)"
    using assms by (simp add: SendKVReq_body_def call_ctx_Err_def Trace_def)
  then show ?thesis by (rule SendKVReq_Return)
qed

text \<open>
  C2. The claim: both senders check the cancellation signal at the top of every pass and
  return the cancellation error once it has fired. On the code: the loop of
  \<^verbatim>\<open>SendCopReq\<close> has no \<^verbatim>\<open>select\<close> on \<^verbatim>\<open>ctx.Done()\<close>. With the context
  cancelled before the call, it still looks the region up, sends the request and returns
  the transport's response with no error.
\<close>

theorem C2_SendCopReq_ignores_cancellation:
  "ctx_Err sim_env (sim0\<lparr>sim_ctx := Some Canceled, sim_cop := [Inr (copresp None)]\<rparr>) =
     Some Canceled
   \<and> SendCopReq sim_env copreq id1 5
       (start (sim0\<lparr>sim_ctx := Some Canceled, sim_cop := [Inr (copresp None)]\<rparr>)) =
     Some ((Some (copresp None), None), copreq_sent,
      \<lparr>world = sim0\<lparr>sim_ctx := Some Canceled\<rparr>,
       calls = [EvGetRegionByVerID id1, EvSendCopReq ''store1:20160'' copreq_sent 5]\<rparr>)"
proof -
  let ?s = "start (sim0\<lparr>sim_ctx := Some Canceled, sim_cop := [Inr (copresp None)]\<rparr>)"
  have "SendCopReq_body sim_env copreq id1 5 ?s =
      (Return (Some (copresp None), None), copreq_sent,
       \<lparr>world = sim0\<lparr>sim_ctx := Some Canceled\<rparr>,
        calls = [EvGetRegionByVerID id1, EvSendCopReq ''store1:20160'' copreq_sent 5]\<rparr>)"
    by (simp add: sender_defs call_defs sim_defs)
  then have "SendCopReq sim_env copreq id1 5 ?s =
      Some ((Some (copresp None), None), copreq_sent,
       \<lparr>world = sim0\<lparr>sim_ctx := Some Canceled\<rparr>,
        calls = [EvGetRegionByVerID id1, EvSendCopReq ''store1:20160'' copreq_sent 5]\<rparr>)"
    by (rule SendCopReq_Return)
  moreover have "ctx_Err sim_env (sim0\<lparr>sim_ctx := Some Canceled, sim_cop := [Inr (copresp None)]\<rparr>) =
      Some Canceled"
    by (simp add: sim_defs)
  ultimately show ?thesis by simp
qed

subsection \<open>NotLeader\<close>

text \<open>
  One pass over a response that carries a NotLeader region error, for both senders.
\<close>

lemma SendKVReq_body_notLeader:
  assumes "kv_dispatch env req regionID timeout (world s) region (Inr resp) w1"
    and "resp_RegionError resp = Some regionErr" and "NotLeader regionErr = Some nl"
  shows "SendKVReq_body env req regionID timeout s =
    (case nl_Leader nl of
       Some p \<Rightarrow>
         (Continue, kv_stamp req region,
          after s (kv_sent_calls req regionID timeout region @
              [EvReportRegionError regionErr,
               EvUpdateLeader (region_VerID region) (peer_Id p)])
            (UpdateLeader env (region_VerID region) (peer_Id p) w1))
     | None \<Rightarrow>
         (case Backoff env boRegionMiss (Errorf_NotLeader nl (region_Context region))
                 (UpdateLeader env (region_VerID region) 0 w1) of
            (berr, w2) \<Rightarrow>
              ((case berr of None \<Rightarrow> Continue
                | Some b \<Rightarrow> Return (None, Some (Traced (Traced b)))),
               kv_stamp req region,
               after s (kv_sent_calls req regionID timeout region @
                  [EvReportRegionError regionErr, EvUpdateLeader (region_VerID region) 0,
                   EvBackoff boRegionMiss (Errorf_NotLeader nl (region_Context region))])
                 w2)))"
  using assms(2,3)
  by (simp add: SendKVReq_body_answered [OF assms(1)]
      onRegionError_notLeader [of regionErr nl] Let_def Trace_def
      split: option.splits prod.splits)

lemma SendCopReq_body_notLeader:
  assumes "cop_dispatch env creq regionID timeout (world s) region (Inr cresp) w1"
    and "cresp_RegionError cresp = Some regionErr" and "NotLeader regionErr = Some nl"
  shows "SendCopReq_body env creq regionID timeout s =
    (case nl_Leader nl of
       Some p \<Rightarrow>
         (Continue, cop_stamp creq region,
          after s (cop_sent_calls creq regionID timeout region @
              [EvReportRegionError regionErr,
               EvUpdateLeader (region_VerID region) (peer_Id p)])
            (UpdateLeader env (region_VerID region) (peer_Id p) w1))
     | None \<Rightarrow>
         (case Backoff env boRegionMiss (Errorf_NotLeader nl (region_Context region))
                 (UpdateLeader env (region_VerID region) 0 w1) of
            (berr, w2) \<Rightarrow>
              ((case berr of None \<Rightarrow> Continue
                | Some b \<Rightarrow> Return (None, Some (Traced (Traced b)))),
               cop_stamp creq region,
               after s (cop_sent_calls creq regionID timeout region @
                  [EvReportRegionError regionErr, EvUpdateLeader (region_VerID region) 0,
                   EvBackoff boRegionMiss (Errorf_NotLeader nl (region_Context region))])
                 w2)))"
  using assms(2,3)
  by (simp add: SendCopReq_body_answered [OF assms(1)]
      onRegionError_notLeader [of regionErr nl] Let_def Trace_def
      split: option.splits prod.splits)

text \<open>
  C6. A response carrying a NotLeader region error: when the server names a leader, the
  pass makes one \<^verbatim>\<open>UpdateLeader\<close> call with that peer's id and no backoff call, and
  ends in \<^verbatim>\<open>continue\<close>: the call goes on as the loop run anew on the stamped
  request from the state that pass left. When the server names no leader, the pass calls
  \<^verbatim>\<open>UpdateLeader\<close> with id 0 and then charges the region-miss class once; if the
  charge succeeds the call goes on in the same way from the state after the charge, and
  if it fails the sender returns the traced error of that backoff. Both request kinds.
\<close>

theorem C6_not_leader:
  "(kv_dispatch env req regionID timeout (world s) region (Inr resp) w1 \<and>
    resp_RegionError resp = Some regionErr \<and> NotLeader regionErr = Some nl \<longrightarrow>
    (case nl_Leader nl of
       Some p \<Rightarrow>
         SendKVReq_body env req regionID timeout s =
           (Continue, kv_stamp req region,
            after s (kv_sent_calls req regionID timeout region @
                [EvReportRegionError regionErr,
                 EvUpdateLeader (region_VerID region) (peer_Id p)])
              (UpdateLeader env (region_VerID region) (peer_Id p) w1))
         \<and> SendKVReq env req regionID timeout s =
           SendKVReq env (kv_stamp req region) regionID timeout
             (after s (kv_sent_calls req regionID timeout region @
                [EvReportRegionError regionErr,
                 EvUpdateLeader (region_VerID region) (peer_Id p)])
              (UpdateLeader env (region_VerID region) (peer_Id p) w1))
     | None \<Rightarrow>
         (case Backoff env boRegionMiss (Errorf_NotLeader nl (region_Context region))
                 (UpdateLeader env (region_VerID region) 0 w1) of
            (None, w2) \<Rightarrow>
              SendKVReq_body env req regionID timeout s =
                (Continue, kv_stamp req region,
                 after s (kv_sent_calls req regionID timeout region @
                    [EvReportRegionError regionErr, EvUpdateLeader (region_VerID region) 0,
                     EvBackoff boRegionMiss (Errorf_NotLeader nl (region_Context region))]) w2)
              \<and> SendKVReq env req regionID timeout s =
                SendKVReq env (kv_stamp req region) regionID timeout
                 (after s (kv_sent_calls req regionID timeout region @
                    [EvReportRegionError regionErr, EvUpdateLeader (region_VerID region) 0,
                     EvBackoff boRegionMiss (Errorf_NotLeader nl (region_Context region))]) w2)
          | (Some b, w2) \<Rightarrow>
              SendKVReq env req regionID timeout s =
                Some ((None, Some (Traced (Traced b))), kv_stamp req region,
                 after s (kv_sent_calls req regionID timeout region @
                    [EvReportRegionError regionErr, EvUpdateLeader (region_VerID region) 0,
                     EvBackoff boRegionMiss (Errorf_NotLeader nl (region_Context region))]) w2))))
   \<and>
   (cop_dispatch env creq regionID timeout (world s) region (Inr cresp) w1 \<and>
    cresp_RegionError cresp = Some regionErr \<and> NotLeader regionErr = Some nl \<longrightarrow>
    (case nl_Leader nl of
       Some p \<Rightarrow>
         SendCopReq_body env creq regionID timeout s =
           (Continue, cop_stamp creq region,
            after s (cop_sent_calls creq regionID timeout region @
                [EvReportRegionError regionErr,
                 EvUpdateLeader (region_VerID region) (peer_Id p)])
              (UpdateLeader env (region_VerID region) (peer_Id p) w1))
         \<and> SendCopReq env creq regionID timeout s =
           SendCopReq env (cop_stamp creq region) regionID timeout
             (after s (cop_sent_calls creq regionID timeout region @
                [EvReportRegionError regionErr,
                 EvUpdateLeader (region_VerID region) (peer_Id p)])
              (UpdateLeader env (region_VerID region) (peer_Id p) w1))
     | None \<Rightarrow>
         (case Backoff env boRegionMiss (Errorf_NotLeader nl (region_Context region))
                 (UpdateLeader env (region_VerID region) 0 w1) of
            (None, w2) \<Rightarrow>
              SendCopReq_body env creq regionID timeout s =
                (Continue, cop_stamp creq region,
                 after s (cop_sent_calls creq regionID timeout region @
                    [EvReportRegionError regionErr, EvUpdateLeader (region_VerID region) 0,
                     EvBackoff boRegionMiss (Errorf_NotLeader nl (region_Context region))]) w2)
              \<and> SendCopReq env creq regionID timeout s =
                SendCopReq env (cop_stamp creq region) regionID timeout
                 (after s (cop_sent_calls creq regionID timeout region @
                    [EvReportRegionError regionErr, EvUpdateLeader (region_VerID region) 0,
                     EvBackoff boRegionMiss (Errorf_NotLeader nl (region_Context region))]) w2)
          | (Some b, w2) \<Rightarrow>
              SendCopReq env creq regionID timeout s =
                Some ((None, Some (Traced (Traced b))), cop_stamp creq region,
                 after s (cop_sent_calls creq regionID timeout region @
                    [EvReportRegionError regionErr, EvUpdateLeader (region_VerID region) 0,
                     EvBackoff boRegionMiss (Errorf_NotLeader nl (region_Context region))]) w2))))"
  (is "(?kvA \<longrightarrow> ?kvC) \<and> (?copA \<longrightarrow> ?copC)")
proof (intro conjI impI)
  assume a: ?kvA
  then have body: "SendKVReq_body env req regionID timeout s =
    (case nl_Leader nl of
       Some p \<Rightarrow>
         (Continue, kv_stamp req region,
          after s (kv_sent_calls req regionID timeout region @
              [EvReportRegionError regionErr,
               EvUpdateLeader (region_VerID region) (peer_Id p)])
            (UpdateLeader env (region_VerID region) (peer_Id p) w1))
     | None \<Rightarrow>
         (case Backoff env boRegionMiss (Errorf_NotLeader nl (region_Context region))
                 (UpdateLeader env (region_VerID region) 0 w1) of
            (berr, w2) \<Rightarrow>
              ((case berr of None \<Rightarrow> Continue
                | Some b \<Rightarrow> Return (None, Some (Traced (Traced b)))),
               kv_stamp req region,
               after s (kv_sent_calls req regionID timeout region @
                  [EvReportRegionError regionErr, EvUpdateLeader (region_VerID region) 0,
                   EvBackoff boRegionMiss (Errorf_NotLeader nl (region_Context region))])
                 w2)))"
    by (intro SendKVReq_body_notLeader [where resp = resp]) simp_all
  show ?kvC
  proof (cases "nl_Leader nl")
    case (Some p)
    with body have b: "SendKVReq_body env req regionID timeout s =
         (Continue, kv_stamp req region,
          after s (kv_sent_calls req regionID timeout region @
              [EvReportRegionError regionErr,
               EvUpdateLeader (region_VerID region) (peer_Id p)])
            (UpdateLeader env (region_VerID region) (peer_Id p) w1))"
      by simp
    from b SendKVReq_Continue [OF b] Some show ?thesis by simp
  next
    case None
    obtain berr w2 where bo:
      "Backoff env boRegionMiss (Errorf_NotLeader nl (region_Context region))
         (UpdateLeader env (region_VerID region) 0 w1) = (berr, w2)"
      by (cases "Backoff env boRegionMiss (Errorf_NotLeader nl (region_Context region))
         (UpdateLeader env (region_VerID region) 0 w1)")
    show ?thesis
    proof (cases berr)
      case bn: None
      with body None bo have b: "SendKVReq_body env req regionID timeout s =
           (Continue, kv_stamp req region,
            after s (kv_sent_calls req regionID timeout region @
                [EvReportRegionError regionErr, EvUpdateLeader (region_VerID region) 0,
                 EvBackoff boRegionMiss (Errorf_NotLeader nl (region_Context region))]) w2)"
        by simp
      from b SendKVReq_Continue [OF b] None bo bn show ?thesis by simp
    next
      case (Some b')
      with body None bo have b: "SendKVReq_body env req regionID timeout s =
           (Return (None, Some (Traced (Traced b'))), kv_stamp req region,
            after s (kv_sent_calls req regionID timeout region @
                [EvReportRegionError regionErr, EvUpdateLeader (region_VerID region) 0,
                 EvBackoff boRegionMiss (Errorf_NotLeader nl (region_Context region))]) w2)"
        by simp
      from SendKVReq_Return [OF b] None bo Some show ?thesis by simp
    qed
  qed
next
  assume a: ?copA
  then have body: "SendCopReq_body env creq regionID timeout s =
    (case nl_Leader nl of
       Some p \<Rightarrow>
         (Continue, cop_stamp creq region,
          after s (cop_sent_calls creq regionID timeout region @
              [EvReportRegionError regionErr,
               EvUpdateLeader (region_VerID region) (peer_Id p)])
            (UpdateLeader env (region_VerID region) (peer_Id p) w1))
     | None \<Rightarrow>
         (case Backoff env boRegionMiss (Errorf_NotLeader nl (region_Context region))
                 (UpdateLeader env (region_VerID region) 0 w1) of
            (berr, w2) \<Rightarrow>
              ((case berr of None \<Rightarrow> Continue
                | Some b \<Rightarrow> Return (None, Some (Traced (Traced b)))),
               cop_stamp creq region,
               after s (cop_sent_calls creq regionID timeout region @
                  [EvReportRegionError regionErr, EvUpdateLeader (region_VerID region) 0,
                   EvBackoff boRegionMiss (Errorf_NotLeader nl (region_Context region))])
                 w2)))"
    by (intro SendCopReq_body_notLeader [where cresp = cresp]) simp_all
  show ?copC
  proof (cases "nl_Leader nl")
    case (Some p)
    with body have b: "SendCopReq_body env creq regionID timeout s =
         (Continue, cop_stamp creq region,
          after s (cop_sent_calls creq regionID timeout region @
              [EvReportRegionError regionErr,
               EvUpdateLeader (region_VerID region) (peer_Id p)])
            (UpdateLeader env (region_VerID region) (peer_Id p) w1))"
      by simp
    from b SendCopReq_Continue [OF b] Some show ?thesis by simp
  next
    case None
    obtain berr w2 where bo:
      "Backoff env boRegionMiss (Errorf_NotLeader nl (region_Context region))
         (UpdateLeader env (region_VerID region) 0 w1) = (berr, w2)"
      by (cases "Backoff env boRegionMiss (Errorf_NotLeader nl (region_Context region))
         (UpdateLeader env (region_VerID region) 0 w1)")
    show ?thesis
    proof (cases berr)
      case bn: None
      with body None bo have b: "SendCopReq_body env creq regionID timeout s =
           (Continue, cop_stamp creq region,
            after s (cop_sent_calls creq regionID timeout region @
                [EvReportRegionError regionErr, EvUpdateLeader (region_VerID region) 0,
                 EvBackoff boRegionMiss (Errorf_NotLeader nl (region_Context region))]) w2)"
        by simp
      from b SendCopReq_Continue [OF b] None bo bn show ?thesis by simp
    next
      case (Some b')
      with body None bo have b: "SendCopReq_body env creq regionID timeout s =
           (Return (None, Some (Traced (Traced b'))), cop_stamp creq region,
            after s (cop_sent_calls creq regionID timeout region @
                [EvReportRegionError regionErr, EvUpdateLeader (region_VerID region) 0,
                 EvBackoff boRegionMiss (Errorf_NotLeader nl (region_Context region))]) w2)"
        by simp
      from SendCopReq_Return [OF b] None bo Some show ?thesis by simp
    qed
  qed
qed

text \<open>
  On concrete inputs. The node first answers the KV request with NotLeader, naming peer
  2, then with a clean response: the sender updates the leader once, charges nothing,
  sends again and returns the clean response. For the coprocessor request the node
  names no leader and the backoff budget is used up: the sender returns the backoff's
  error.
\<close>

theorem C6_not_leader_witness:
  "kv_dispatch sim_env kvreq id1 5
      (world (start (sim0\<lparr>sim_kv := [Inr (kvresp 1 (Some (notLeaderError (Some peer2)))),
                                       Inr (kvresp 1 None)]\<rparr>)))
      region1 (Inr (kvresp 1 (Some (notLeaderError (Some peer2)))))
      (sim0\<lparr>sim_kv := [Inr (kvresp 1 None)]\<rparr>)
   \<and> NotLeader (notLeaderError (Some peer2)) = Some \<lparr>nl_RegionId = 1, nl_Leader = Some peer2\<rparr>
   \<and> SendKVReq_body sim_env kvreq id1 5
        (start (sim0\<lparr>sim_kv := [Inr (kvresp 1 (Some (notLeaderError (Some peer2)))),
                                Inr (kvresp 1 None)]\<rparr>)) =
       (Continue, kvreq_sent,
        \<lparr>world = sim0\<lparr>sim_kv := [Inr (kvresp 1 None)]\<rparr>,
         calls = [EvCtxDone, EvGetRegionByVerID id1, EvSendKVReq ''store1:20160'' kvreq_sent 5,
                  EvReportRegionError (notLeaderError (Some peer2)), EvUpdateLeader id1 12]\<rparr>)
   \<and> SendKVReq sim_env kvreq id1 5
        (start (sim0\<lparr>sim_kv := [Inr (kvresp 1 (Some (notLeaderError (Some peer2)))),
                                Inr (kvresp 1 None)]\<rparr>)) =
       Some ((Some (kvresp 1 None), None), kvreq_sent,
        \<lparr>world = sim0,
         calls = [EvCtxDone, EvGetRegionByVerID id1, EvSendKVReq ''store1:20160'' kvreq_sent 5,
                  EvReportRegionError (notLeaderError (Some peer2)), EvUpdateLeader id1 12,
                  EvCtxDone, EvGetRegionByVerID id1,
                  EvSendKVReq ''store1:20160'' kvreq_sent 5]\<rparr>)
   \<and> cop_dispatch sim_env copreq id1 5
      (world (start (sim0\<lparr>sim_cop := [Inr (copresp (Some (notLeaderError None)))],
                           sim_budget := 0\<rparr>)))
      region1 (Inr (copresp (Some (notLeaderError None)))) (sim0\<lparr>sim_budget := 0\<rparr>)
   \<and> NotLeader (notLeaderError None) = Some \<lparr>nl_RegionId = 1, nl_Leader = None\<rparr>
   \<and> SendCopReq sim_env copreq id1 5
        (start (sim0\<lparr>sim_cop := [Inr (copresp (Some (notLeaderError None)))],
                     sim_budget := 0\<rparr>)) =
       Some ((None, Some (Traced (Traced (External ''backoffer.maxSleep is exceeded'')))),
        copreq_sent,
        \<lparr>world = sim0\<lparr>sim_budget := 0\<rparr>,
         calls = [EvGetRegionByVerID id1, EvSendCopReq ''store1:20160'' copreq_sent 5,
                  EvReportRegionError (notLeaderError None), EvUpdateLeader id1 0,
                  EvBackoff boRegionMiss
                    (Errorf_NotLeader \<lparr>nl_RegionId = 1, nl_Leader = None\<rparr> ctx1)]\<rparr>)"
proof -
  let ?s1 = "\<lparr>world = sim0\<lparr>sim_kv := [Inr (kvresp 1 None)]\<rparr>,
         calls = [EvCtxDone, EvGetRegionByVerID id1, EvSendKVReq ''store1:20160'' kvreq_sent 5,
                  EvReportRegionError (notLeaderError (Some peer2)), EvUpdateLeader id1 12]\<rparr>"
  have "SendKVReq_body sim_env kvreq_sent id1 5 ?s1 =
     (Return (Some (kvresp 1 None), None), kvreq_sent,
      \<lparr>world = sim0,
       calls = [EvCtxDone, EvGetRegionByVerID id1, EvSendKVReq ''store1:20160'' kvreq_sent 5,
                EvReportRegionError (notLeaderError (Some peer2)), EvUpdateLeader id1 12,
                EvCtxDone, EvGetRegionByVerID id1,
                EvSendKVReq ''store1:20160'' kvreq_sent 5]\<rparr>)"
    by (simp add: sender_defs call_defs sim_defs)
  then have second: "SendKVReq sim_env kvreq_sent id1 5 ?s1 =
     Some ((Some (kvresp 1 None), None), kvreq_sent,
      \<lparr>world = sim0,
       calls = [EvCtxDone, EvGetRegionByVerID id1, EvSendKVReq ''store1:20160'' kvreq_sent 5,
                EvReportRegionError (notLeaderError (Some peer2)), EvUpdateLeader id1 12,
                EvCtxDone, EvGetRegionByVerID id1,
                EvSendKVReq ''store1:20160'' kvreq_sent 5]\<rparr>)"
    by (rule SendKVReq_Return)
  have s1: "after (start (sim0\<lparr>sim_kv := [Inr (kvresp 1 (Some (notLeaderError (Some peer2)))),
                                Inr (kvresp 1 None)]\<rparr>))
        (kv_sent_calls kvreq id1 5 region1 @
          [EvReportRegionError (notLeaderError (Some peer2)),
           EvUpdateLeader (region_VerID region1) (peer_Id peer2)])
        (UpdateLeader sim_env (region_VerID region1) (peer_Id peer2)
          (sim0\<lparr>sim_kv := [Inr (kvresp 1 None)]\<rparr>)) = ?s1"
    by (simp add: sim_defs vocab_defs)
  have st: "kv_stamp kvreq region1 = kvreq_sent"
    by (simp add: sim_defs vocab_defs)
  have kvd: "kv_dispatch sim_env kvreq id1 5
      (world (start (sim0\<lparr>sim_kv := [Inr (kvresp 1 (Some (notLeaderError (Some peer2)))),
                                       Inr (kvresp 1 None)]\<rparr>)))
      region1 (Inr (kvresp 1 (Some (notLeaderError (Some peer2)))))
      (sim0\<lparr>sim_kv := [Inr (kvresp 1 None)]\<rparr>)
    \<and> resp_RegionError (kvresp 1 (Some (notLeaderError (Some peer2)))) =
        Some (notLeaderError (Some peer2))
    \<and> NotLeader (notLeaderError (Some peer2)) = Some \<lparr>nl_RegionId = 1, nl_Leader = Some peer2\<rparr>"
    by (simp add: sim_defs vocab_defs)
  have copd: "cop_dispatch sim_env copreq id1 5
      (world (start (sim0\<lparr>sim_cop := [Inr (copresp (Some (notLeaderError None)))],
                           sim_budget := 0\<rparr>)))
      region1 (Inr (copresp (Some (notLeaderError None)))) (sim0\<lparr>sim_budget := 0\<rparr>)
    \<and> cresp_RegionError (copresp (Some (notLeaderError None))) = Some (notLeaderError None)
    \<and> NotLeader (notLeaderError None) = Some \<lparr>nl_RegionId = 1, nl_Leader = None\<rparr>"
    by (simp add: sim_defs vocab_defs)
  from C6_not_leader [where env = sim_env and req = kvreq and regionID = id1 and timeout = 5
      and s = "start (sim0\<lparr>sim_kv := [Inr (kvresp 1 (Some (notLeaderError (Some peer2)))),
                                      Inr (kvresp 1 None)]\<rparr>)"
      and region = region1 and resp = "kvresp 1 (Some (notLeaderError (Some peer2)))"
      and ?w1.0 = "sim0\<lparr>sim_kv := [Inr (kvresp 1 None)]\<rparr>"
      and regionErr = "notLeaderError (Some peer2)"
      and nl = "\<lparr>nl_RegionId = 1, nl_Leader = Some peer2\<rparr>"] kvd
  have kv: "SendKVReq_body sim_env kvreq id1 5
        (start (sim0\<lparr>sim_kv := [Inr (kvresp 1 (Some (notLeaderError (Some peer2)))),
                                Inr (kvresp 1 None)]\<rparr>)) = (Continue, kvreq_sent, ?s1)
    \<and> SendKVReq sim_env kvreq id1 5
        (start (sim0\<lparr>sim_kv := [Inr (kvresp 1 (Some (notLeaderError (Some peer2)))),
                                Inr (kvresp 1 None)]\<rparr>)) =
       SendKVReq sim_env kvreq_sent id1 5 ?s1"
    by (simp add: s1 st)
  from C6_not_leader [where env = sim_env and creq = copreq and regionID = id1 and timeout = 5
      and s = "start (sim0\<lparr>sim_cop := [Inr (copresp (Some (notLeaderError None)))],
                           sim_budget := 0\<rparr>)"
      and region = region1 and cresp = "copresp (Some (notLeaderError None))"
      and ?w1.0 = "sim0\<lparr>sim_budget := 0\<rparr>" and regionErr = "notLeaderError None"
      and nl = "\<lparr>nl_RegionId = 1, nl_Leader = None\<rparr>"] copd
  have cop: "SendCopReq sim_env copreq id1 5
        (start (sim0\<lparr>sim_cop := [Inr (copresp (Some (notLeaderError None)))],
                     sim_budget := 0\<rparr>)) =
       Some ((None, Some (Traced (Traced (External ''backoffer.maxSleep is exceeded'')))),
        copreq_sent,
        \<lparr>world = sim0\<lparr>sim_budget := 0\<rparr>,
         calls = [EvGetRegionByVerID id1, EvSendCopReq ''store1:20160'' copreq_sent 5,
                  EvReportRegionError (notLeaderError None), EvUpdateLeader id1 0,
                  EvBackoff boRegionMiss
                    (Errorf_NotLeader \<lparr>nl_RegionId = 1, nl_Leader = None\<rparr> ctx1)]\<rparr>)"
    by (simp add: sim_defs vocab_defs)
  from kv second kvd copd cop show ?thesis by simp
qed

subsection \<open>Transport failures\<close>

text \<open>
  When the transport fails for a KV request, the pass calls \<^verbatim>\<open>NextPeer\<close>, then
  \<^verbatim>\<open>Backoff\<close> on the RPC class; a failed backoff is what \<^verbatim>\<open>SendKVReq\<close> returns,
  under three \<^verbatim>\<open>errors.Trace\<close> annotations.
\<close>

lemma SendKVReq_send_fail_fatal:
  assumes "kv_dispatch env req regionID timeout (world s) region (Inl err) w1"
    and "Backoff env boTiKVRPC (Errorf_SendFail err (region_Context region))
           (NextPeer env (region_VerID region) w1) = (Some b, w2)"
  shows "SendKVReq env req regionID timeout s =
    Some ((None, Some (Traced (Traced (Traced b)))), kv_stamp req region,
      after s (kv_sent_calls req regionID timeout region @
        [EvNextPeer (region_VerID region),
         EvBackoff boTiKVRPC (Errorf_SendFail err (region_Context region))]) w2)"
  by (rule SendKVReq_Return) (simp add: SendKVReq_body_failed [OF assms])

text \<open>
  C3. The claim: for both request kinds a failed transport call advances the peer, then
  charges the RPC-error class once, and a failure of that charge is the error the sender
  returns. On the code: \<^verbatim>\<open>sendCopReqToRegion\<close> returns \<^verbatim>\<open>errors.Trace(err)\<close>, the
  transport's error, where \<^verbatim>\<open>sendKVReqToRegion\<close> returns \<^verbatim>\<open>errors.Trace(e)\<close>, the
  backoff's. With the transport refusing the connection and the backoff budget used up,
  \<^verbatim>\<open>SendCopReq\<close> returns ``connection refused''; \<^verbatim>\<open>SendKVReq\<close>, in the same world,
  returns the backoffer's error.
\<close>

theorem C3_SendCopReq_returns_transport_error:
  "Backoff sim_env boTiKVRPC (Errorf_SendFail (External ''connection refused'') ctx1)
       (sim0\<lparr>sim_budget := 0\<rparr>) =
     (Some (External ''backoffer.maxSleep is exceeded''), sim0\<lparr>sim_budget := 0\<rparr>)
   \<and> SendCopReq sim_env copreq id1 5 (start (sim0\<lparr>sim_budget := 0\<rparr>)) =
     Some ((None, Some (Traced (Traced (External ''connection refused'')))), copreq_sent,
      \<lparr>world = sim0\<lparr>sim_budget := 0\<rparr>,
       calls = [EvGetRegionByVerID id1, EvSendCopReq ''store1:20160'' copreq_sent 5,
                EvNextPeer id1,
                EvBackoff boTiKVRPC (Errorf_SendFail (External ''connection refused'') ctx1)]\<rparr>)
   \<and> Cause (Traced (Traced (External ''connection refused''))) \<noteq>
       External ''backoffer.maxSleep is exceeded''
   \<and> SendKVReq sim_env kvreq id1 5 (start (sim0\<lparr>sim_budget := 0\<rparr>)) =
     Some ((None, Some (Traced (Traced (Traced (External ''backoffer.maxSleep is exceeded''))))),
      kvreq_sent,
      \<lparr>world = sim0\<lparr>sim_budget := 0\<rparr>,
       calls = [EvCtxDone, EvGetRegionByVerID id1, EvSendKVReq ''store1:20160'' kvreq_sent 5,
                EvNextPeer id1,
                EvBackoff boTiKVRPC (Errorf_SendFail (External ''connection refused'') ctx1)]\<rparr>)"
proof -
  have bo: "Backoff sim_env boTiKVRPC (Errorf_SendFail (External ''connection refused'') ctx1)
       (sim0\<lparr>sim_budget := 0\<rparr>) =
     (Some (External ''backoffer.maxSleep is exceeded''), sim0\<lparr>sim_budget := 0\<rparr>)"
    by (simp add: sim_defs)
  have "SendCopReq_body sim_env copreq id1 5 (start (sim0\<lparr>sim_budget := 0\<rparr>)) =
     (Return (None, Some (Traced (Traced (External ''connection refused'')))), copreq_sent,
      \<lparr>world = sim0\<lparr>sim_budget := 0\<rparr>,
       calls = [EvGetRegionByVerID id1, EvSendCopReq ''store1:20160'' copreq_sent 5,
                EvNextPeer id1,
                EvBackoff boTiKVRPC (Errorf_SendFail (External ''connection refused'') ctx1)]\<rparr>)"
    by (simp add: sender_defs call_defs sim_defs)
  then have cop: "SendCopReq sim_env copreq id1 5 (start (sim0\<lparr>sim_budget := 0\<rparr>)) =
     Some ((None, Some (Traced (Traced (External ''connection refused'')))), copreq_sent,
      \<lparr>world = sim0\<lparr>sim_budget := 0\<rparr>,
       calls = [EvGetRegionByVerID id1, EvSendCopReq ''store1:20160'' copreq_sent 5,
                EvNextPeer id1,
                EvBackoff boTiKVRPC (Errorf_SendFail (External ''connection refused'') ctx1)]\<rparr>)"
    by (rule SendCopReq_Return)
  have "SendKVReq_body sim_env kvreq id1 5 (start (sim0\<lparr>sim_budget := 0\<rparr>)) =
     (Return (None, Some (Traced (Traced (Traced (External ''backoffer.maxSleep is exceeded''))))),
      kvreq_sent,
      \<lparr>world = sim0\<lparr>sim_budget := 0\<rparr>,
       calls = [EvCtxDone, EvGetRegionByVerID id1, EvSendKVReq ''store1:20160'' kvreq_sent 5,
                EvNextPeer id1,
                EvBackoff boTiKVRPC (Errorf_SendFail (External ''connection refused'') ctx1)]\<rparr>)"
    by (simp add: sender_defs call_defs sim_defs)
  then have kv: "SendKVReq sim_env kvreq id1 5 (start (sim0\<lparr>sim_budget := 0\<rparr>)) =
     Some ((None, Some (Traced (Traced (Traced (External ''backoffer.maxSleep is exceeded''))))),
      kvreq_sent,
      \<lparr>world = sim0\<lparr>sim_budget := 0\<rparr>,
       calls = [EvCtxDone, EvGetRegionByVerID id1, EvSendKVReq ''store1:20160'' kvreq_sent 5,
                EvNextPeer id1,
                EvBackoff boTiKVRPC (Errorf_SendFail (External ''connection refused'') ctx1)]\<rparr>)"
    by (rule SendKVReq_Return)
  from bo cop kv show ?thesis by simp
qed

subsection \<open>Regions the cache does not know\<close>

text \<open>
  C5, as stated: for an identity the cache cannot resolve the sender returns at once, with
  no transport call and no error. It fails for \<^verbatim>\<open>SendKVReq\<close> when the context is
  already done: the context is polled before the cache is asked, and the call returns
  the context's error.
\<close>

theorem C5_counterexample:
  "GetRegionByVerID sim_env id1 (sim0\<lparr>sim_ctx := Some DeadlineExceeded, sim_cache := []\<rparr>) = None
   \<and> SendKVReq sim_env kvreq id1 5
       (start (sim0\<lparr>sim_ctx := Some DeadlineExceeded, sim_cache := []\<rparr>)) =
     Some ((None, Some (Traced DeadlineExceeded)), kvreq,
      \<lparr>world = sim0\<lparr>sim_ctx := Some DeadlineExceeded, sim_cache := []\<rparr>,
       calls = [EvCtxDone]\<rparr>)"
proof -
  have "SendKVReq sim_env kvreq id1 5
       (start (sim0\<lparr>sim_ctx := Some DeadlineExceeded, sim_cache := []\<rparr>)) =
     Some ((None, Some (Traced DeadlineExceeded)), kvreq,
       (start (sim0\<lparr>sim_ctx := Some DeadlineExceeded, sim_cache := []\<rparr>))
         \<lparr>calls := calls (start (sim0\<lparr>sim_ctx := Some DeadlineExceeded, sim_cache := []\<rparr>))
                    @ [EvCtxDone]\<rparr>)"
    by (rule SendKVReq_cancelled) (simp add: sim_defs)
  then show ?thesis by (simp add: sim_defs)
qed

text \<open>
  C5, amended. With the context not done, for an identity the cache cannot resolve both
  senders return in that pass with no error: the only calls are the context poll (KV)
  and the cache lookup, none to the transport; the world and the request are unchanged;
  and the response is made up by the sender: it carries the request's type (KV) and a
  region error whose only part is a StaleEpoch with no new regions.
\<close>

theorem C5_unknown_region:
  assumes "GetRegionByVerID env regionID (world s) = None"
    and "ctx_Err env (world s) = None"
  shows "SendKVReq env req regionID timeout s =
        Some ((Some (kv_notFound req), None), req,
              s\<lparr>calls := calls s @ [EvCtxDone, EvGetRegionByVerID regionID]\<rparr>)
    \<and> SendCopReq env creq regionID timeout s =
        Some ((Some cop_notFound, None), creq,
              s\<lparr>calls := calls s @ [EvGetRegionByVerID regionID]\<rparr>)
    \<and> resp_Type (kv_notFound req) = req_Type req
    \<and> resp_RegionError (kv_notFound req) = Some staleEpochError
    \<and> cresp_RegionError cop_notFound = Some staleEpochError
    \<and> NotLeader staleEpochError = None
    \<and> StaleEpoch staleEpochError = Some \<lparr>NewRegions = []\<rparr>
    \<and> ServerIsBusy staleEpochError = None"
proof -
  have kv: "SendKVReq env req regionID timeout s =
        Some ((Some (kv_notFound req), None), req,
              s\<lparr>calls := calls s @ [EvCtxDone, EvGetRegionByVerID regionID]\<rparr>)"
    using assms
    by (intro SendKVReq_Return)
      (simp add: SendKVReq_body_def call_ctx_Err_def call_GetRegionByVerID_def kv_notFound_def)
  have cop: "SendCopReq env creq regionID timeout s =
        Some ((Some cop_notFound, None), creq,
              s\<lparr>calls := calls s @ [EvGetRegionByVerID regionID]\<rparr>)"
    using assms
    by (intro SendCopReq_Return)
      (simp add: SendCopReq_body_def call_GetRegionByVerID_def cop_notFound_def)
  from kv cop show ?thesis
    by (simp add: kv_notFound_def cop_notFound_def staleEpochError_def)
qed

theorem C5_unknown_region_witness:
  "GetRegionByVerID sim_env id1 (world (start (sim0\<lparr>sim_cache := []\<rparr>))) = None
   \<and> ctx_Err sim_env (world (start (sim0\<lparr>sim_cache := []\<rparr>))) = None
   \<and> SendKVReq sim_env kvreq id1 5 (start (sim0\<lparr>sim_cache := []\<rparr>)) =
       Some ((Some (kv_notFound kvreq), None), kvreq,
             \<lparr>world = sim0\<lparr>sim_cache := []\<rparr>, calls = [EvCtxDone, EvGetRegionByVerID id1]\<rparr>)
   \<and> SendCopReq sim_env copreq id1 5 (start (sim0\<lparr>sim_cache := []\<rparr>)) =
       Some ((Some cop_notFound, None), copreq,
             \<lparr>world = sim0\<lparr>sim_cache := []\<rparr>, calls = [EvGetRegionByVerID id1]\<rparr>)"
  using C5_unknown_region [where env = sim_env and regionID = id1
      and s = "start (sim0\<lparr>sim_cache := []\<rparr>)" and req = kvreq and creq = copreq
      and timeout = 5]
  by (simp add: sim_env_def sim0_def start_def)

subsection \<open>What a pass can return\<close>

lemma onRegionError_no_retry:
  assumes "onRegionError env region regionErr s = ((False, None), s')"
  shows "NotLeader regionErr = None \<and> StaleEpoch regionErr \<noteq> None"
  using assms
  by (auto simp: onRegionError_def call_defs Let_def Trace_def
      split: option.splits prod.splits if_splits)


lemma sendKVReqToRegion_result:
  assumes "sendKVReqToRegion env region req timeout s = ((resp, retry, err), req1, s1)"
  shows "req1 = req\<lparr>req_Context := Some (region_Context region)\<rparr>
    \<and> (\<exists>evs. calls s1 = calls s @ evs \<and>
          (retry \<longrightarrow> (\<exists>ev\<in>set evs. is_cache_mutation ev \<or> is_backoff ev)))
    \<and> (err = None \<and> \<not> retry \<longrightarrow> resp \<noteq> None)"
  using assms
  by (auto simp: sendKVReqToRegion_def onSendFail_def call_defs Let_def Trace_def
      split: option.splits prod.splits sum.splits)

lemma sendCopReqToRegion_result:
  assumes "sendCopReqToRegion env region req timeout s = ((resp, retry, err), req1, s1)"
  shows "req1 = req\<lparr>creq_Context := Some (region_Context region)\<rparr>
    \<and> (\<exists>evs. calls s1 = calls s @ evs \<and>
          (retry \<longrightarrow> (\<exists>ev\<in>set evs. is_cache_mutation ev \<or> is_backoff ev)))
    \<and> (err = None \<and> \<not> retry \<longrightarrow> resp \<noteq> None)"
  using assms
  by (auto simp: sendCopReqToRegion_def onSendFail_def call_defs Let_def Trace_def
      split: option.splits prod.splits sum.splits)

lemma SendKVReq_body_req_Type:
  assumes "SendKVReq_body env req regionID timeout s = (x, req', s')"
  shows "req_Type req' = req_Type req"
  using assms
  by (auto simp: SendKVReq_body_def Let_def call_ctx_Err_def call_GetRegionByVerID_def
      split: option.splits prod.splits bool.splits if_splits
      dest!: sendKVReqToRegion_result)

lemma SendKVReq_body_Return:
  assumes "SendKVReq_body env req regionID timeout s = (Return (resp, err), req', s')"
  shows "(resp = None) \<noteq> (err = None)
    \<and> (\<forall>r. resp = Some r \<longrightarrow> resp_Type r = req_Type req)
    \<and> (\<forall>e. GetRegionError resp = Some e \<longrightarrow> NotLeader e = None \<and> StaleEpoch e \<noteq> None)"
  using assms
  by (auto simp: SendKVReq_body_def Let_def call_ctx_Err_def call_GetRegionByVerID_def
      Trace_def GetType_def GetRegionError_def staleEpochError_def
      split: option.splits prod.splits bool.splits if_splits
      dest!: sendKVReqToRegion_result onRegionError_no_retry)

lemma SendCopReq_body_Return:
  assumes "SendCopReq_body env req regionID timeout s = (Return (resp, err), req', s')"
  shows "(resp = None) \<noteq> (err = None)
    \<and> (\<forall>e. Cop_GetRegionError resp = Some e \<longrightarrow> NotLeader e = None \<and> StaleEpoch e \<noteq> None)"
  using assms
  by (auto simp: SendCopReq_body_def Let_def call_GetRegionByVerID_def
      Trace_def Cop_GetRegionError_def staleEpochError_def
      split: option.splits prod.splits bool.splits if_splits
      dest!: sendCopReqToRegion_result onRegionError_no_retry)

lemma SendKVReq_result_aux:
  assumes "SendKVReq env req regionID timeout s = Some y"
  shows "(fst (fst y) = None) \<noteq> (snd (fst y) = None)
    \<and> (\<forall>r. fst (fst y) = Some r \<longrightarrow> resp_Type r = req_Type req)
    \<and> (\<forall>e. GetRegionError (fst (fst y)) = Some e \<longrightarrow>
          NotLeader e = None \<and> StaleEpoch e \<noteq> None)"
    (is "?Q req y")
proof (rule SendKVReq.raw_induct
    [where P = "\<lambda>env req regionID timeout s y. ?Q req y", OF _ assms])
  fix f :: "'a collab \<Rightarrow> kvrpcpb_Request \<Rightarrow> RegionVerID \<Rightarrow> int \<Rightarrow> 'a state
     \<Rightarrow> ((kvrpcpb_Response option \<times> error option) \<times> kvrpcpb_Request \<times> 'a state) option"
  fix env req regionID timeout s y
  assume IH: "\<And>env req regionID timeout s y. f env req regionID timeout s = Some y \<Longrightarrow> ?Q req y"
    and step: "(case SendKVReq_body env req regionID timeout s of
        (Return r, req', s') \<Rightarrow> Some (r, req', s')
      | (Continue, req', s') \<Rightarrow> f env req' regionID timeout s') = Some y"
  obtain x req1 s1 where b: "SendKVReq_body env req regionID timeout s = (x, req1, s1)"
    by (cases "SendKVReq_body env req regionID timeout s") auto
  show "?Q req y"
  proof (cases x)
    case (Return r)
    with b step have "SendKVReq_body env req regionID timeout s =
        (Return (fst (fst y), snd (fst y)), req1, s1)"
      by auto
    then show ?thesis by (rule SendKVReq_body_Return)
  next
    case Continue
    with b step have "f env req1 regionID timeout s1 = Some y"
      by simp
    then have "?Q req1 y"
      by (rule IH)
    moreover have "req_Type req1 = req_Type req"
      using b by (rule SendKVReq_body_req_Type)
    ultimately show ?thesis by simp
  qed
qed

lemma SendCopReq_result_aux:
  assumes "SendCopReq env req regionID timeout s = Some y"
  shows "(fst (fst y) = None) \<noteq> (snd (fst y) = None)
    \<and> (\<forall>e. Cop_GetRegionError (fst (fst y)) = Some e \<longrightarrow>
          NotLeader e = None \<and> StaleEpoch e \<noteq> None)"
    (is "?Q y")
proof (rule SendCopReq.raw_induct
    [where P = "\<lambda>env req regionID timeout s y. ?Q y", OF _ assms])
  fix f :: "'a collab \<Rightarrow> coprocessor_Request \<Rightarrow> RegionVerID \<Rightarrow> int \<Rightarrow> 'a state
     \<Rightarrow> ((coprocessor_Response option \<times> error option) \<times> coprocessor_Request \<times> 'a state) option"
  fix env req regionID timeout s y
  assume IH: "\<And>env req regionID timeout s y. f env req regionID timeout s = Some y \<Longrightarrow> ?Q y"
    and step: "(case SendCopReq_body env req regionID timeout s of
        (Return r, req', s') \<Rightarrow> Some (r, req', s')
      | (Continue, req', s') \<Rightarrow> f env req' regionID timeout s') = Some y"
  obtain x req1 s1 where b: "SendCopReq_body env req regionID timeout s = (x, req1, s1)"
    by (cases "SendCopReq_body env req regionID timeout s") auto
  show "?Q y"
  proof (cases x)
    case (Return r)
    with b step have "SendCopReq_body env req regionID timeout s =
        (Return (fst (fst y), snd (fst y)), req1, s1)"
      by auto
    then show ?thesis by (rule SendCopReq_body_Return)
  next
    case Continue
    with b step have "f env req1 regionID timeout s1 = Some y"
      by simp
    then show ?thesis by (rule IH)
  qed
qed

subsection \<open>StaleEpoch\<close>

text \<open>
  C7, as stated: a response carrying a StaleEpoch region error is returned to the caller
  with the error attached. It fails for \<^verbatim>\<open>SendKVReq\<close> when the response's type
  differs from the request's: after \<^verbatim>\<open>OnRegionStale\<close> the loop falls through to the
  type check, and the call returns the mismatch error, not the response.
\<close>

theorem C7_counterexample:
  "resp_RegionError (kvresp 2 (Some staleError)) = Some staleError
   \<and> NotLeader staleError = None \<and> StaleEpoch staleError \<noteq> None
   \<and> SendKVReq sim_env kvreq id1 5 (start (sim0\<lparr>sim_kv := [Inr (kvresp 2 (Some staleError))]\<rparr>)) =
     Some ((None, Some (Traced (errMismatch (Some (kvresp 2 (Some staleError))) kvreq_sent))),
      kvreq_sent,
      \<lparr>world = sim0\<lparr>sim_cache := []\<rparr>,
       calls = [EvCtxDone, EvGetRegionByVerID id1, EvSendKVReq ''store1:20160'' kvreq_sent 5,
                EvReportRegionError staleError,
                EvOnRegionStale region1
                  [\<lparr>mregion_Id = 1, mregion_StartKey = ''a'', mregion_EndKey = ''m''\<rparr>,
                   \<lparr>mregion_Id = 2, mregion_StartKey = ''m'', mregion_EndKey = ''z''\<rparr>]]\<rparr>)"
proof -
  have "SendKVReq_body sim_env kvreq id1 5
      (start (sim0\<lparr>sim_kv := [Inr (kvresp 2 (Some staleError))]\<rparr>)) =
     (Return (None, Some (Traced (errMismatch (Some (kvresp 2 (Some staleError))) kvreq_sent))),
      kvreq_sent,
      \<lparr>world = sim0\<lparr>sim_cache := []\<rparr>,
       calls = [EvCtxDone, EvGetRegionByVerID id1, EvSendKVReq ''store1:20160'' kvreq_sent 5,
                EvReportRegionError staleError,
                EvOnRegionStale region1
                  [\<lparr>mregion_Id = 1, mregion_StartKey = ''a'', mregion_EndKey = ''m''\<rparr>,
                   \<lparr>mregion_Id = 2, mregion_StartKey = ''m'', mregion_EndKey = ''z''\<rparr>]]\<rparr>)"
    by (simp add: sender_defs call_defs sim_defs)
  then have "SendKVReq sim_env kvreq id1 5
      (start (sim0\<lparr>sim_kv := [Inr (kvresp 2 (Some staleError))]\<rparr>)) =
     Some ((None, Some (Traced (errMismatch (Some (kvresp 2 (Some staleError))) kvreq_sent))),
      kvreq_sent,
      \<lparr>world = sim0\<lparr>sim_cache := []\<rparr>,
       calls = [EvCtxDone, EvGetRegionByVerID id1, EvSendKVReq ''store1:20160'' kvreq_sent 5,
                EvReportRegionError staleError,
                EvOnRegionStale region1
                  [\<lparr>mregion_Id = 1, mregion_StartKey = ''a'', mregion_EndKey = ''m''\<rparr>,
                   \<lparr>mregion_Id = 2, mregion_StartKey = ''m'', mregion_EndKey = ''z''\<rparr>]]\<rparr>)"
    by (rule SendKVReq_Return)
  then show ?thesis by (simp add: kvresp_def staleError_def)
qed

text \<open>
  C7, amended. For a response whose region error is a StaleEpoch (and not a NotLeader,
  which the code tests first), the pass calls \<^verbatim>\<open>OnRegionStale\<close> once with the
  server's list of new regions, whatever its length, and the sender returns in that
  pass: the traced error of \<^verbatim>\<open>OnRegionStale\<close> if it failed; otherwise the response
  itself, region error attached, except that \<^verbatim>\<open>SendKVReq\<close> returns the mismatch error
  when the response's type is not the request's.
\<close>

theorem C7_stale_epoch:
  "(kv_dispatch env req regionID timeout (world s) region (Inr resp) w1 \<and>
    resp_RegionError resp = Some regionErr \<and> NotLeader regionErr = None \<and>
    StaleEpoch regionErr = Some se \<longrightarrow>
    (case OnRegionStale env region (NewRegions se) w1 of
       (Some err, w2) \<Rightarrow>
         SendKVReq env req regionID timeout s =
           Some ((None, Some (Traced (Traced err))), kv_stamp req region,
             after s (kv_sent_calls req regionID timeout region @
               [EvReportRegionError regionErr, EvOnRegionStale region (NewRegions se)]) w2)
     | (None, w2) \<Rightarrow>
         SendKVReq env req regionID timeout s =
           Some ((if resp_Type resp = req_Type req then (Some resp, None)
                  else (None, Some (Traced (errMismatch (Some resp) (kv_stamp req region))))),
             kv_stamp req region,
             after s (kv_sent_calls req regionID timeout region @
               [EvReportRegionError regionErr, EvOnRegionStale region (NewRegions se)]) w2)))
   \<and>
   (cop_dispatch env creq regionID timeout (world s) region (Inr cresp) w1 \<and>
    cresp_RegionError cresp = Some regionErr \<and> NotLeader regionErr = None \<and>
    StaleEpoch regionErr = Some se \<longrightarrow>
    (case OnRegionStale env region (NewRegions se) w1 of
       (Some err, w2) \<Rightarrow>
         SendCopReq env creq regionID timeout s =
           Some ((None, Some (Traced (Traced err))), cop_stamp creq region,
             after s (cop_sent_calls creq regionID timeout region @
               [EvReportRegionError regionErr, EvOnRegionStale region (NewRegions se)]) w2)
     | (None, w2) \<Rightarrow>
         SendCopReq env creq regionID timeout s =
           Some ((Some cresp, None), cop_stamp creq region,
             after s (cop_sent_calls creq regionID timeout region @
               [EvReportRegionError regionErr, EvOnRegionStale region (NewRegions se)]) w2)))"
  (is "(?kvA \<longrightarrow> ?kvC) \<and> (?copA \<longrightarrow> ?copC)")
proof (intro conjI impI)
  assume a: ?kvA
  then have d: "kv_dispatch env req regionID timeout (world s) region (Inr resp) w1" by simp
  from a show ?kvC
    by (subst SendKVReq.simps, subst SendKVReq.simps)
      (simp add: SendKVReq_body_answered [OF d] onRegionError_staleEpoch [of regionErr se]
        Let_def Trace_def split: option.splits prod.splits)
next
  assume a: ?copA
  then have d: "cop_dispatch env creq regionID timeout (world s) region (Inr cresp) w1" by simp
  from a show ?copC
    by (subst SendCopReq.simps, subst SendCopReq.simps)
      (simp add: SendCopReq_body_answered [OF d] onRegionError_staleEpoch [of regionErr se]
        Let_def Trace_def split: option.splits prod.splits)
qed

theorem C7_stale_epoch_witness:
  "kv_dispatch sim_env kvreq id1 5
      (world (start (sim0\<lparr>sim_kv := [Inr (kvresp 1 (Some staleError))]\<rparr>)))
      region1 (Inr (kvresp 1 (Some staleError))) sim0
   \<and> SendKVReq sim_env kvreq id1 5 (start (sim0\<lparr>sim_kv := [Inr (kvresp 1 (Some staleError))]\<rparr>)) =
       Some ((Some (kvresp 1 (Some staleError)), None), kvreq_sent,
        \<lparr>world = sim0\<lparr>sim_cache := []\<rparr>,
         calls = [EvCtxDone, EvGetRegionByVerID id1, EvSendKVReq ''store1:20160'' kvreq_sent 5,
                  EvReportRegionError staleError,
                  EvOnRegionStale region1
                    [\<lparr>mregion_Id = 1, mregion_StartKey = ''a'', mregion_EndKey = ''m''\<rparr>,
                     \<lparr>mregion_Id = 2, mregion_StartKey = ''m'', mregion_EndKey = ''z''\<rparr>]]\<rparr>)
   \<and> cop_dispatch sim_env copreq id1 5
      (world (start (sim0\<lparr>sim_cop := [Inr (copresp (Some staleEpochError))],
                           sim_stale := Some (External ''cache update failed'')\<rparr>)))
      region1 (Inr (copresp (Some staleEpochError)))
      (sim0\<lparr>sim_stale := Some (External ''cache update failed'')\<rparr>)
   \<and> SendCopReq sim_env copreq id1 5
        (start (sim0\<lparr>sim_cop := [Inr (copresp (Some staleEpochError))],
                     sim_stale := Some (External ''cache update failed'')\<rparr>)) =
       Some ((None, Some (Traced (Traced (External ''cache update failed'')))), copreq_sent,
        \<lparr>world = sim0\<lparr>sim_cache := [], sim_stale := Some (External ''cache update failed'')\<rparr>,
         calls = [EvGetRegionByVerID id1, EvSendCopReq ''store1:20160'' copreq_sent 5,
                  EvReportRegionError staleEpochError, EvOnRegionStale region1 []]\<rparr>)"
  using C7_stale_epoch [where env = sim_env and req = kvreq and regionID = id1 and timeout = 5
      and s = "start (sim0\<lparr>sim_kv := [Inr (kvresp 1 (Some staleError))]\<rparr>)"
      and region = region1 and resp = "kvresp 1 (Some staleError)"
      and ?w1.0 = sim0 and regionErr = staleError
      and se = "\<lparr>NewRegions =
        [\<lparr>mregion_Id = 1, mregion_StartKey = ''a'', mregion_EndKey = ''m''\<rparr>,
         \<lparr>mregion_Id = 2, mregion_StartKey = ''m'', mregion_EndKey = ''z''\<rparr>]\<rparr>"]
    C7_stale_epoch [where env = sim_env and creq = copreq and regionID = id1 and timeout = 5
      and s = "start (sim0\<lparr>sim_cop := [Inr (copresp (Some staleEpochError))],
                           sim_stale := Some (External ''cache update failed'')\<rparr>)"
      and region = region1 and cresp = "copresp (Some staleEpochError)"
      and ?w1.0 = "sim0\<lparr>sim_stale := Some (External ''cache update failed'')\<rparr>"
      and regionErr = staleEpochError and se = "\<lparr>NewRegions = []\<rparr>"]
  by (simp add: sim_defs vocab_defs)

subsection \<open>A clean response\<close>

text \<open>
  C10. When the transport answers and the response carries no region error, the pass
  makes no call besides the context poll (KV), the cache lookup and the transport call:
  the world is the one the transport left, no call changes the cache or charges a
  backoff, and the request differs from the caller's only in its context field, set to
  the region's context before the dispatch. The pass returns (for KV, the response or
  the mismatch error).
\<close>

theorem C10_clean_response_frame:
  "(kv_dispatch env req regionID timeout (world s) region (Inr resp) w1 \<and>
    resp_RegionError resp = None \<longrightarrow>
      SendKVReq_body env req regionID timeout s =
        (Return (if resp_Type resp \<noteq> req_Type req
                 then (None, Some (Traced (errMismatch (Some resp) (kv_stamp req region))))
                 else (Some resp, None)),
         req\<lparr>req_Context := Some (region_Context region)\<rparr>,
         \<lparr>world = w1,
          calls = calls s @ [EvCtxDone, EvGetRegionByVerID regionID,
            EvSendKVReq (region_Address region)
              (req\<lparr>req_Context := Some (region_Context region)\<rparr>) timeout]\<rparr>))
   \<and>
   (cop_dispatch env creq regionID timeout (world s) region (Inr cresp) w1 \<and>
    cresp_RegionError cresp = None \<longrightarrow>
      SendCopReq_body env creq regionID timeout s =
        (Return (Some cresp, None),
         creq\<lparr>creq_Context := Some (region_Context region)\<rparr>,
         \<lparr>world = w1,
          calls = calls s @ [EvGetRegionByVerID regionID,
            EvSendCopReq (region_Address region)
              (creq\<lparr>creq_Context := Some (region_Context region)\<rparr>) timeout]\<rparr>))
   \<and> \<not> (\<exists>ev \<in> set (kv_sent_calls req regionID timeout region).
          is_cache_mutation ev \<or> is_backoff ev)
   \<and> \<not> (\<exists>ev \<in> set (cop_sent_calls creq regionID timeout region).
          is_cache_mutation ev \<or> is_backoff ev)"
  by (auto simp: SendKVReq_body_answered SendCopReq_body_answered Let_def vocab_defs)

theorem C10_clean_response_frame_witness:
  "kv_dispatch sim_env kvreq id1 5 (world (start (sim0\<lparr>sim_kv := [Inr (kvresp 1 None)]\<rparr>)))
      region1 (Inr (kvresp 1 None)) sim0
   \<and> resp_RegionError (kvresp 1 None) = None
   \<and> SendKVReq_body sim_env kvreq id1 5 (start (sim0\<lparr>sim_kv := [Inr (kvresp 1 None)]\<rparr>)) =
       (Return (Some (kvresp 1 None), None), kvreq_sent,
        \<lparr>world = sim0,
         calls = [EvCtxDone, EvGetRegionByVerID id1,
                  EvSendKVReq ''store1:20160'' kvreq_sent 5]\<rparr>)
   \<and> cop_dispatch sim_env copreq id1 5 (world (start (sim0\<lparr>sim_cop := [Inr (copresp None)]\<rparr>)))
      region1 (Inr (copresp None)) sim0
   \<and> cresp_RegionError (copresp None) = None
   \<and> SendCopReq_body sim_env copreq id1 5 (start (sim0\<lparr>sim_cop := [Inr (copresp None)]\<rparr>)) =
       (Return (Some (copresp None), None), copreq_sent,
        \<lparr>world = sim0,
         calls = [EvGetRegionByVerID id1, EvSendCopReq ''store1:20160'' copreq_sent 5]\<rparr>)"
  using C10_clean_response_frame [where env = sim_env and req = kvreq and regionID = id1
      and timeout = 5 and s = "start (sim0\<lparr>sim_kv := [Inr (kvresp 1 None)]\<rparr>)"
      and region = region1 and resp = "kvresp 1 None" and ?w1.0 = sim0 and creq = copreq]
    C10_clean_response_frame [where env = sim_env and creq = copreq and regionID = id1
      and timeout = 5 and s = "start (sim0\<lparr>sim_cop := [Inr (copresp None)]\<rparr>)"
      and region = region1 and cresp = "copresp None" and ?w1.0 = sim0 and req = kvreq]
  by (simp add: sim_defs vocab_defs)

subsection \<open>Every retry has changed the cache or charged a backoff\<close>



subsection \<open>The type check of SendKVReq\<close>

text \<open>
  C8, as stated: whenever the transport answers with a response of another type than the
  request's, the sender returns the mismatch error. It fails when that response carries
  a region error that is retried: the response is dropped without a look at its type.
  Here the first answer has type 2 (the request has type 1) and says NotLeader, naming a
  leader; the second answer is clean, and the call returns it with no error.
\<close>

theorem C8_counterexample:
  "resp_Type (kvresp 2 (Some (notLeaderError (Some peer2)))) \<noteq> req_Type kvreq
   \<and> SendKVReq sim_env kvreq id1 5
       (start (sim0\<lparr>sim_kv := [Inr (kvresp 2 (Some (notLeaderError (Some peer2)))),
                               Inr (kvresp 1 None)]\<rparr>)) =
     Some ((Some (kvresp 1 None), None), kvreq_sent,
      \<lparr>world = sim0,
       calls = [EvCtxDone, EvGetRegionByVerID id1, EvSendKVReq ''store1:20160'' kvreq_sent 5,
                EvReportRegionError (notLeaderError (Some peer2)), EvUpdateLeader id1 12,
                EvCtxDone, EvGetRegionByVerID id1,
                EvSendKVReq ''store1:20160'' kvreq_sent 5]\<rparr>)"
proof -
  let ?s1 = "\<lparr>world = sim0\<lparr>sim_kv := [Inr (kvresp 1 None)]\<rparr>,
       calls = [EvCtxDone, EvGetRegionByVerID id1, EvSendKVReq ''store1:20160'' kvreq_sent 5,
                EvReportRegionError (notLeaderError (Some peer2)), EvUpdateLeader id1 12]\<rparr>"
  have first: "SendKVReq_body sim_env kvreq id1 5
       (start (sim0\<lparr>sim_kv := [Inr (kvresp 2 (Some (notLeaderError (Some peer2)))),
                               Inr (kvresp 1 None)]\<rparr>)) =
     (Continue, kvreq_sent, ?s1)"
    by (simp add: sender_defs call_defs sim_defs)
  have second: "SendKVReq_body sim_env kvreq_sent id1 5 ?s1 =
     (Return (Some (kvresp 1 None), None), kvreq_sent,
      \<lparr>world = sim0,
       calls = [EvCtxDone, EvGetRegionByVerID id1, EvSendKVReq ''store1:20160'' kvreq_sent 5,
                EvReportRegionError (notLeaderError (Some peer2)), EvUpdateLeader id1 12,
                EvCtxDone, EvGetRegionByVerID id1,
                EvSendKVReq ''store1:20160'' kvreq_sent 5]\<rparr>)"
    by (simp add: sender_defs call_defs sim_defs)
  have "SendKVReq sim_env kvreq id1 5
       (start (sim0\<lparr>sim_kv := [Inr (kvresp 2 (Some (notLeaderError (Some peer2)))),
                               Inr (kvresp 1 None)]\<rparr>)) =
     SendKVReq sim_env kvreq_sent id1 5 ?s1"
    using first by (rule SendKVReq_Continue)
  also have "\<dots> = Some ((Some (kvresp 1 None), None), kvreq_sent,
      \<lparr>world = sim0,
       calls = [EvCtxDone, EvGetRegionByVerID id1, EvSendKVReq ''store1:20160'' kvreq_sent 5,
                EvReportRegionError (notLeaderError (Some peer2)), EvUpdateLeader id1 12,
                EvCtxDone, EvGetRegionByVerID id1,
                EvSendKVReq ''store1:20160'' kvreq_sent 5]\<rparr>)"
    using second by (rule SendKVReq_Return)
  finally show ?thesis by (simp add: kvresp_def kvreq_def)
qed

text \<open>
  C8, amended. \<^verbatim>\<open>SendKVReq\<close> never returns a response whose type differs from the
  request's; and when the transport answers with such a response and the response
  carries no region error, the call returns the mismatch error in that pass. (A region
  error is handled first; C7 covers the StaleEpoch case, which reaches the type check
  too. \<^verbatim>\<open>SendCopReq\<close> compares nothing: a coprocessor response has no type field.)
\<close>

theorem C8_type_check:
  "(SendKVReq env req regionID timeout s = Some ((Some r, err), req', s') \<longrightarrow>
      resp_Type r = req_Type req)
   \<and>
   (kv_dispatch env req regionID timeout (world s) region (Inr resp) w1 \<and>
    resp_RegionError resp = None \<and> resp_Type resp \<noteq> req_Type req \<longrightarrow>
      SendKVReq env req regionID timeout s =
        Some ((None, Some (Traced (errMismatch (Some resp) (kv_stamp req region)))),
          kv_stamp req region, after s (kv_sent_calls req regionID timeout region) w1))"
proof (intro conjI impI)
  assume "SendKVReq env req regionID timeout s = Some ((Some r, err), req', s')"
  from SendKVReq_result_aux [OF this] show "resp_Type r = req_Type req" by simp
next
  assume a: "kv_dispatch env req regionID timeout (world s) region (Inr resp) w1 \<and>
    resp_RegionError resp = None \<and> resp_Type resp \<noteq> req_Type req"
  then have d: "kv_dispatch env req regionID timeout (world s) region (Inr resp) w1" by simp
  from a show "SendKVReq env req regionID timeout s =
        Some ((None, Some (Traced (errMismatch (Some resp) (kv_stamp req region)))),
          kv_stamp req region, after s (kv_sent_calls req regionID timeout region) w1)"
    by (intro SendKVReq_Return) (simp add: SendKVReq_body_answered [OF d] Let_def)
qed

theorem C8_type_check_witness:
  "SendKVReq sim_env kvreq id1 5 (start (sim0\<lparr>sim_kv := [Inr (kvresp 1 None)]\<rparr>)) =
     Some ((Some (kvresp 1 None), None), kvreq_sent,
       \<lparr>world = sim0,
        calls = [EvCtxDone, EvGetRegionByVerID id1,
                 EvSendKVReq ''store1:20160'' kvreq_sent 5]\<rparr>)
   \<and> resp_Type (kvresp 1 None) = req_Type kvreq
   \<and> kv_dispatch sim_env kvreq id1 5
       (world (start (sim0\<lparr>sim_kv := [Inr (kvresp 2 None)]\<rparr>))) region1 (Inr (kvresp 2 None)) sim0
   \<and> resp_RegionError (kvresp 2 None) = None
   \<and> resp_Type (kvresp 2 None) \<noteq> req_Type kvreq
   \<and> SendKVReq sim_env kvreq id1 5 (start (sim0\<lparr>sim_kv := [Inr (kvresp 2 None)]\<rparr>)) =
     Some ((None, Some (Traced (errMismatch (Some (kvresp 2 None)) kvreq_sent))), kvreq_sent,
       \<lparr>world = sim0,
        calls = [EvCtxDone, EvGetRegionByVerID id1,
                 EvSendKVReq ''store1:20160'' kvreq_sent 5]\<rparr>)"
proof -
  have "SendKVReq_body sim_env kvreq id1 5 (start (sim0\<lparr>sim_kv := [Inr (kvresp 1 None)]\<rparr>)) =
     (Return (Some (kvresp 1 None), None), kvreq_sent,
       \<lparr>world = sim0,
        calls = [EvCtxDone, EvGetRegionByVerID id1,
                 EvSendKVReq ''store1:20160'' kvreq_sent 5]\<rparr>)"
    by (simp add: sender_defs call_defs sim_defs)
  then have ret: "SendKVReq sim_env kvreq id1 5 (start (sim0\<lparr>sim_kv := [Inr (kvresp 1 None)]\<rparr>)) =
     Some ((Some (kvresp 1 None), None), kvreq_sent,
       \<lparr>world = sim0,
        calls = [EvCtxDone, EvGetRegionByVerID id1,
                 EvSendKVReq ''store1:20160'' kvreq_sent 5]\<rparr>)"
    by (rule SendKVReq_Return)
  from ret
    C8_type_check [where env = sim_env and req = kvreq and regionID = id1 and timeout = 5
      and s = "start (sim0\<lparr>sim_kv := [Inr (kvresp 1 None)]\<rparr>)" and r = "kvresp 1 None"
      and err = None and req' = kvreq_sent
      and s' = "\<lparr>world = sim0,
        calls = [EvCtxDone, EvGetRegionByVerID id1,
                 EvSendKVReq ''store1:20160'' kvreq_sent 5]\<rparr>"]
    C8_type_check [where env = sim_env and req = kvreq and regionID = id1 and timeout = 5
      and s = "start (sim0\<lparr>sim_kv := [Inr (kvresp 2 None)]\<rparr>)" and region = region1
      and resp = "kvresp 2 None" and ?w1.0 = sim0]
  show ?thesis by (simp add: sim_defs vocab_defs)
qed

subsection \<open>A call that never returns\<close>

text \<open>
  Nothing bounds the loops but the backoffer and, for \<^verbatim>\<open>SendKVReq\<close>, the context. A
  NotLeader answer that names a leader charges no backoff, so against a node that keeps
  redirecting, and with the context never done, neither sender returns.
\<close>

lemma redirecting_body_kv:
  "fst (SendKVReq_body redirecting_env req regionID timeout s) = Continue"
  by (simp add: sender_defs call_defs redirecting_env_def notLeaderError_def kvresp_def)

lemma redirecting_body_cop:
  "fst (SendCopReq_body redirecting_env req regionID timeout s) = Continue"
  by (simp add: sender_defs call_defs redirecting_env_def notLeaderError_def copresp_def)

lemma SendKVReq_can_diverge:
  "SendKVReq redirecting_env req regionID timeout s = None"
proof (cases "SendKVReq redirecting_env req regionID timeout s")
  case None
  then show ?thesis .
next
  case (Some y)
  have False
  proof (rule SendKVReq.raw_induct
      [where P = "\<lambda>env req regionID timeout s y. env = redirecting_env \<longrightarrow> False",
       OF _ Some, THEN mp])
    fix f :: "unit collab \<Rightarrow> kvrpcpb_Request \<Rightarrow> RegionVerID \<Rightarrow> int \<Rightarrow> unit state
       \<Rightarrow> ((kvrpcpb_Response option \<times> error option) \<times> kvrpcpb_Request \<times> unit state) option"
    fix env req regionID timeout s y
    assume IH: "\<And>env req regionID timeout s y. f env req regionID timeout s = Some y \<Longrightarrow>
        env = redirecting_env \<longrightarrow> False"
      and step: "(case SendKVReq_body env req regionID timeout s of
          (Return r, req', s') \<Rightarrow> Some (r, req', s')
        | (Continue, req', s') \<Rightarrow> f env req' regionID timeout s') = Some y"
    show "env = redirecting_env \<longrightarrow> False"
    proof
      assume e: "env = redirecting_env"
      obtain x req1 s1 where b: "SendKVReq_body env req regionID timeout s = (x, req1, s1)"
        by (cases "SendKVReq_body env req regionID timeout s") auto
      with e redirecting_body_kv [of req regionID timeout s] have "x = Continue" by simp
      with b step have "f env req1 regionID timeout s1 = Some y" by simp
      from IH [OF this] e show False by simp
    qed
  qed simp
  then show ?thesis ..
qed

lemma SendCopReq_can_diverge:
  "SendCopReq redirecting_env req regionID timeout s = None"
proof (cases "SendCopReq redirecting_env req regionID timeout s")
  case None
  then show ?thesis .
next
  case (Some y)
  have False
  proof (rule SendCopReq.raw_induct
      [where P = "\<lambda>env req regionID timeout s y. env = redirecting_env \<longrightarrow> False",
       OF _ Some, THEN mp])
    fix f :: "unit collab \<Rightarrow> coprocessor_Request \<Rightarrow> RegionVerID \<Rightarrow> int \<Rightarrow> unit state
       \<Rightarrow> ((coprocessor_Response option \<times> error option) \<times> coprocessor_Request \<times> unit state) option"
    fix env req regionID timeout s y
    assume IH: "\<And>env req regionID timeout s y. f env req regionID timeout s = Some y \<Longrightarrow>
        env = redirecting_env \<longrightarrow> False"
      and step: "(case SendCopReq_body env req regionID timeout s of
          (Return r, req', s') \<Rightarrow> Some (r, req', s')
        | (Continue, req', s') \<Rightarrow> f env req' regionID timeout s') = Some y"
    show "env = redirecting_env \<longrightarrow> False"
    proof
      assume e: "env = redirecting_env"
      obtain x req1 s1 where b: "SendCopReq_body env req regionID timeout s = (x, req1, s1)"
        by (cases "SendCopReq_body env req regionID timeout s") auto
      with e redirecting_body_cop [of req regionID timeout s] have "x = Continue" by simp
      with b step have "f env req1 regionID timeout s1 = Some y" by simp
      from IH [OF this] e show False by simp
    qed
  qed simp
  then show ?thesis ..
qed

subsection \<open>One outcome\<close>

text \<open>
  C4, as stated: a call returns either a response with no unresolved region error, or an
  error. It fails for a StaleEpoch answer: the sender hands the response back with the
  region error in it, and no error.
\<close>

theorem C4_counterexample:
  "SendCopReq sim_env copreq id1 5 (start (sim0\<lparr>sim_cop := [Inr (copresp (Some staleError))]\<rparr>)) =
     Some ((Some (copresp (Some staleError)), None), copreq_sent,
      \<lparr>world = sim0\<lparr>sim_cache := []\<rparr>,
       calls = [EvGetRegionByVerID id1, EvSendCopReq ''store1:20160'' copreq_sent 5,
                EvReportRegionError staleError,
                EvOnRegionStale region1
                  [\<lparr>mregion_Id = 1, mregion_StartKey = ''a'', mregion_EndKey = ''m''\<rparr>,
                   \<lparr>mregion_Id = 2, mregion_StartKey = ''m'', mregion_EndKey = ''z''\<rparr>]]\<rparr>)
   \<and> cresp_RegionError (copresp (Some staleError)) = Some staleError"
proof -
  have "SendCopReq_body sim_env copreq id1 5
      (start (sim0\<lparr>sim_cop := [Inr (copresp (Some staleError))]\<rparr>)) =
     (Return (Some (copresp (Some staleError)), None), copreq_sent,
      \<lparr>world = sim0\<lparr>sim_cache := []\<rparr>,
       calls = [EvGetRegionByVerID id1, EvSendCopReq ''store1:20160'' copreq_sent 5,
                EvReportRegionError staleError,
                EvOnRegionStale region1
                  [\<lparr>mregion_Id = 1, mregion_StartKey = ''a'', mregion_EndKey = ''m''\<rparr>,
                   \<lparr>mregion_Id = 2, mregion_StartKey = ''m'', mregion_EndKey = ''z''\<rparr>]]\<rparr>)"
    by (simp add: sender_defs call_defs sim_defs)
  then have "SendCopReq sim_env copreq id1 5
      (start (sim0\<lparr>sim_cop := [Inr (copresp (Some staleError))]\<rparr>)) =
     Some ((Some (copresp (Some staleError)), None), copreq_sent,
      \<lparr>world = sim0\<lparr>sim_cache := []\<rparr>,
       calls = [EvGetRegionByVerID id1, EvSendCopReq ''store1:20160'' copreq_sent 5,
                EvReportRegionError staleError,
                EvOnRegionStale region1
                  [\<lparr>mregion_Id = 1, mregion_StartKey = ''a'', mregion_EndKey = ''m''\<rparr>,
                   \<lparr>mregion_Id = 2, mregion_StartKey = ''m'', mregion_EndKey = ''z''\<rparr>]]\<rparr>)"
    by (rule SendCopReq_Return)
  then show ?thesis by (simp add: copresp_def)
qed

text \<open>
  C4, amended. Whatever the number of passes, a call that returns gives exactly one of
  the two results: a response and a nil error, or no response and an error. A returned
  response may carry a region error, but never one of the NotLeader or ServerIsBusy
  branch: those are retried or end in the backoff's error.
\<close>

theorem C4_one_outcome:
  "(SendKVReq env req regionID timeout s = Some ((resp, err), req', s') \<longrightarrow>
      (resp = None) \<noteq> (err = None) \<and>
      (\<forall>e. GetRegionError resp = Some e \<longrightarrow>
         variant_of e \<noteq> NotLeaderV \<and> variant_of e \<noteq> ServerIsBusyV))
   \<and>
   (SendCopReq env creq regionID timeout s = Some ((cresp, cerr), creq', cs') \<longrightarrow>
      (cresp = None) \<noteq> (cerr = None) \<and>
      (\<forall>e. Cop_GetRegionError cresp = Some e \<longrightarrow>
         variant_of e \<noteq> NotLeaderV \<and> variant_of e \<noteq> ServerIsBusyV))"
proof (intro conjI impI)
  assume "SendKVReq env req regionID timeout s = Some ((resp, err), req', s')"
  from SendKVReq_result_aux [OF this] show "(resp = None) \<noteq> (err = None)"
    and "\<forall>e. GetRegionError resp = Some e \<longrightarrow>
         variant_of e \<noteq> NotLeaderV \<and> variant_of e \<noteq> ServerIsBusyV"
    by (auto simp: variant_of_def)
next
  assume "SendCopReq env creq regionID timeout s = Some ((cresp, cerr), creq', cs')"
  from SendCopReq_result_aux [OF this] show "(cresp = None) \<noteq> (cerr = None)"
    and "\<forall>e. Cop_GetRegionError cresp = Some e \<longrightarrow>
         variant_of e \<noteq> NotLeaderV \<and> variant_of e \<noteq> ServerIsBusyV"
    by (auto simp: variant_of_def)
qed

theorem C4_one_outcome_witness:
  "SendKVReq sim_env kvreq id1 5 (start (sim0\<lparr>sim_kv := [Inr (kvresp 1 (Some staleError))]\<rparr>)) =
     Some ((Some (kvresp 1 (Some staleError)), None), kvreq_sent,
      \<lparr>world = sim0\<lparr>sim_cache := []\<rparr>,
       calls = [EvCtxDone, EvGetRegionByVerID id1, EvSendKVReq ''store1:20160'' kvreq_sent 5,
                EvReportRegionError staleError,
                EvOnRegionStale region1
                  [\<lparr>mregion_Id = 1, mregion_StartKey = ''a'', mregion_EndKey = ''m''\<rparr>,
                   \<lparr>mregion_Id = 2, mregion_StartKey = ''m'', mregion_EndKey = ''z''\<rparr>]]\<rparr>)
   \<and> GetRegionError (Some (kvresp 1 (Some staleError))) = Some staleError
   \<and> variant_of staleError \<noteq> NotLeaderV \<and> variant_of staleError \<noteq> ServerIsBusyV
   \<and> SendCopReq sim_env copreq id1 5 (start (sim0\<lparr>sim_budget := 0\<rparr>)) =
     Some ((None, Some (Traced (Traced (External ''connection refused'')))), copreq_sent,
      \<lparr>world = sim0\<lparr>sim_budget := 0\<rparr>,
       calls = [EvGetRegionByVerID id1, EvSendCopReq ''store1:20160'' copreq_sent 5,
                EvNextPeer id1,
                EvBackoff boTiKVRPC (Errorf_SendFail (External ''connection refused'') ctx1)]\<rparr>)
   \<and> Cop_GetRegionError None = None"
proof -
  have "SendKVReq_body sim_env kvreq id1 5
      (start (sim0\<lparr>sim_kv := [Inr (kvresp 1 (Some staleError))]\<rparr>)) =
     (Return (Some (kvresp 1 (Some staleError)), None), kvreq_sent,
      \<lparr>world = sim0\<lparr>sim_cache := []\<rparr>,
       calls = [EvCtxDone, EvGetRegionByVerID id1, EvSendKVReq ''store1:20160'' kvreq_sent 5,
                EvReportRegionError staleError,
                EvOnRegionStale region1
                  [\<lparr>mregion_Id = 1, mregion_StartKey = ''a'', mregion_EndKey = ''m''\<rparr>,
                   \<lparr>mregion_Id = 2, mregion_StartKey = ''m'', mregion_EndKey = ''z''\<rparr>]]\<rparr>)"
    by (simp add: sender_defs call_defs sim_defs)
  then have kv: "SendKVReq sim_env kvreq id1 5
      (start (sim0\<lparr>sim_kv := [Inr (kvresp 1 (Some staleError))]\<rparr>)) =
     Some ((Some (kvresp 1 (Some staleError)), None), kvreq_sent,
      \<lparr>world = sim0\<lparr>sim_cache := []\<rparr>,
       calls = [EvCtxDone, EvGetRegionByVerID id1, EvSendKVReq ''store1:20160'' kvreq_sent 5,
                EvReportRegionError staleError,
                EvOnRegionStale region1
                  [\<lparr>mregion_Id = 1, mregion_StartKey = ''a'', mregion_EndKey = ''m''\<rparr>,
                   \<lparr>mregion_Id = 2, mregion_StartKey = ''m'', mregion_EndKey = ''z''\<rparr>]]\<rparr>)"
    by (rule SendKVReq_Return)
  have "SendCopReq_body sim_env copreq id1 5 (start (sim0\<lparr>sim_budget := 0\<rparr>)) =
     (Return (None, Some (Traced (Traced (External ''connection refused'')))), copreq_sent,
      \<lparr>world = sim0\<lparr>sim_budget := 0\<rparr>,
       calls = [EvGetRegionByVerID id1, EvSendCopReq ''store1:20160'' copreq_sent 5,
                EvNextPeer id1,
                EvBackoff boTiKVRPC (Errorf_SendFail (External ''connection refused'') ctx1)]\<rparr>)"
    by (simp add: sender_defs call_defs sim_defs)
  then have cop: "SendCopReq sim_env copreq id1 5 (start (sim0\<lparr>sim_budget := 0\<rparr>)) =
     Some ((None, Some (Traced (Traced (External ''connection refused'')))), copreq_sent,
      \<lparr>world = sim0\<lparr>sim_budget := 0\<rparr>,
       calls = [EvGetRegionByVerID id1, EvSendCopReq ''store1:20160'' copreq_sent 5,
                EvNextPeer id1,
                EvBackoff boTiKVRPC (Errorf_SendFail (External ''connection refused'') ctx1)]\<rparr>)"
    by (rule SendCopReq_Return)
  have re: "GetRegionError (Some (kvresp 1 (Some staleError))) = Some staleError"
    by (simp add: GetRegionError_def kvresp_def)
  from C4_one_outcome [where env = sim_env and req = kvreq and regionID = id1 and timeout = 5
      and s = "start (sim0\<lparr>sim_kv := [Inr (kvresp 1 (Some staleError))]\<rparr>)"
      and resp = "Some (kvresp 1 (Some staleError))" and err = None and req' = kvreq_sent
      and s' = "\<lparr>world = sim0\<lparr>sim_cache := []\<rparr>,
       calls = [EvCtxDone, EvGetRegionByVerID id1, EvSendKVReq ''store1:20160'' kvreq_sent 5,
                EvReportRegionError staleError,
                EvOnRegionStale region1
                  [\<lparr>mregion_Id = 1, mregion_StartKey = ''a'', mregion_EndKey = ''m''\<rparr>,
                   \<lparr>mregion_Id = 2, mregion_StartKey = ''m'', mregion_EndKey = ''z''\<rparr>]]\<rparr>"]
    kv re
  have v: "variant_of staleError \<noteq> NotLeaderV \<and> variant_of staleError \<noteq> ServerIsBusyV"
    by simp
  from kv cop re v show ?thesis by (simp add: Cop_GetRegionError_def)
qed

end
